theory Spec2Isabelle
  imports Complex_Main "HOL-Library.AList" "HOL-Library.Sublist"
begin

section \<open>Python values\<close>

text \<open>
  The script \<^verbatim>\<open>main.py\<close> talks to the cluster through \<^verbatim>\<open>curl\<close> and works on whatever
  \<^verbatim>\<open>json.loads\<close> makes of the output. A decoded document is a \<open>json\<close> value: \<open>JNull\<close> is
  Python's \<^verbatim>\<open>None\<close>, an object is an association list in insertion order (a Python
  \<^verbatim>\<open>dict\<close>), a finite float is the rational it denotes. A character stands for the
  code point of its number, so that strings are made of the code points below 256; the
  literals of the script are ASCII.
\<close>

datatype json =
    JNull
  | JBool bool
  | JInt int
  | JFloat rat
  | JStr string
  | JArr "json list"
  | JObj "(string \<times> json) list"

text \<open>The exceptions the script can meet; all of them derive from \<^verbatim>\<open>Exception\<close>.\<close>

datatype error =
    CalledProcessError
  | AttributeError
  | TypeError
  | KeyError
  | IndexError
  | ValueError
  | EOFError

definition ebind :: "error + 'a \<Rightarrow> ('a \<Rightarrow> error + 'b) \<Rightarrow> error + 'b" where
  "ebind r f = (case r of Inl e \<Rightarrow> Inl e | Inr a \<Rightarrow> f a)"

text \<open>Truth value of an object, as \<^verbatim>\<open>if x\<close>, \<^verbatim>\<open>not x\<close>, \<^verbatim>\<open>x and y\<close> test it.\<close>

fun truthy :: "json \<Rightarrow> bool" where
  "truthy JNull = False"
| "truthy (JBool b) = b"
| "truthy (JInt i) = (i \<noteq> 0)"
| "truthy (JFloat r) = (r \<noteq> 0)"
| "truthy (JStr s) = (s \<noteq> [])"
| "truthy (JArr xs) = (xs \<noteq> [])"
| "truthy (JObj kvs) = (kvs \<noteq> [])"

text \<open>
  \<^verbatim>\<open>k in x\<close> for a string \<open>k\<close>: a key of a dict, an element of a list, a substring of a
  string; any other right operand is not iterable.
\<close>

fun contains :: "string \<Rightarrow> json \<Rightarrow> error + bool" where
  "contains k (JObj kvs) = Inr (k \<in> set (map fst kvs))"
| "contains k (JArr xs) = Inr (JStr k \<in> set xs)"
| "contains k (JStr s) = Inr (sublist k s)"
| "contains k JNull = Inl TypeError"
| "contains k (JBool b) = Inl TypeError"
| "contains k (JInt i) = Inl TypeError"
| "contains k (JFloat r) = Inl TypeError"

text \<open>\<^verbatim>\<open>x[k]\<close> for a string \<open>k\<close>: only a dict can be subscripted by a string.\<close>

fun getitem :: "json \<Rightarrow> string \<Rightarrow> error + json" where
  "getitem (JObj kvs) k = (case map_of kvs k of None \<Rightarrow> Inl KeyError | Some v \<Rightarrow> Inr v)"
| "getitem JNull k = Inl TypeError"
| "getitem (JBool b) k = Inl TypeError"
| "getitem (JInt i) k = Inl TypeError"
| "getitem (JFloat r) k = Inl TypeError"
| "getitem (JStr s) k = Inl TypeError"
| "getitem (JArr xs) k = Inl TypeError"

text \<open>
  \<^verbatim>\<open>x[k] = v\<close> for a string \<open>k\<close>. Python updates the dict in place: an existing key keeps
  its position, a new key goes last. The model returns the updated dict.
\<close>

fun setitem :: "json \<Rightarrow> string \<Rightarrow> json \<Rightarrow> error + json" where
  "setitem (JObj kvs) k v = Inr (JObj (AList.update k v kvs))"
| "setitem JNull k v = Inl TypeError"
| "setitem (JBool b) k v = Inl TypeError"
| "setitem (JInt i) k v = Inl TypeError"
| "setitem (JFloat r) k v = Inl TypeError"
| "setitem (JStr s) k v = Inl TypeError"
| "setitem (JArr xs) k v = Inl TypeError"

text \<open>\<^verbatim>\<open>x.get(k, d)\<close>: a method of dicts only.\<close>

fun get :: "json \<Rightarrow> string \<Rightarrow> json \<Rightarrow> error + json" where
  "get (JObj kvs) k d = Inr (case map_of kvs k of None \<Rightarrow> d | Some v \<Rightarrow> v)"
| "get JNull k d = Inl AttributeError"
| "get (JBool b) k d = Inl AttributeError"
| "get (JInt i) k d = Inl AttributeError"
| "get (JFloat r) k d = Inl AttributeError"
| "get (JStr s) k d = Inl AttributeError"
| "get (JArr xs) k d = Inl AttributeError"

text \<open>\<^verbatim>\<open>x.items()\<close>: a method of dicts only.\<close>

fun items :: "json \<Rightarrow> error + (string \<times> json) list" where
  "items (JObj kvs) = Inr kvs"
| "items JNull = Inl AttributeError"
| "items (JBool b) = Inl AttributeError"
| "items (JInt i) = Inl AttributeError"
| "items (JFloat r) = Inl AttributeError"
| "items (JStr s) = Inl AttributeError"
| "items (JArr xs) = Inl AttributeError"

text \<open>
  \<^verbatim>\<open>x[0]\<close>: the first element of a list, the first character of a string (as a string);
  a dict decoded from JSON has string keys only, so the key \<open>0\<close> is missing.
\<close>

fun getitem0 :: "json \<Rightarrow> error + json" where
  "getitem0 (JArr []) = Inl IndexError"
| "getitem0 (JArr (x # xs)) = Inr x"
| "getitem0 (JStr []) = Inl IndexError"
| "getitem0 (JStr (c # cs)) = Inr (JStr [c])"
| "getitem0 (JObj kvs) = Inl KeyError"
| "getitem0 JNull = Inl TypeError"
| "getitem0 (JBool b) = Inl TypeError"
| "getitem0 (JInt i) = Inl TypeError"
| "getitem0 (JFloat r) = Inl TypeError"

text \<open>\<^verbatim>\<open>s.replace(c, new)\<close> for a one-character \<open>c\<close>: every occurrence is replaced.\<close>

definition str_replace :: "char \<Rightarrow> string \<Rightarrow> string \<Rightarrow> string" where
  "str_replace c new s = concat (map (\<lambda>x. if x = c then new else [x]) s)"

fun replace :: "json \<Rightarrow> char \<Rightarrow> string \<Rightarrow> error + string" where
  "replace (JStr s) c new = Inr (str_replace c new s)"
| "replace JNull c new = Inl AttributeError"
| "replace (JBool b) c new = Inl AttributeError"
| "replace (JInt i) c new = Inl AttributeError"
| "replace (JFloat r) c new = Inl AttributeError"
| "replace (JArr xs) c new = Inl AttributeError"
| "replace (JObj kvs) c new = Inl AttributeError"

text \<open>\<^verbatim>\<open>str(n)\<close> of an integer: its decimal numeral.\<close>

function str_nat :: "nat \<Rightarrow> string" where
  "str_nat n =
     (if n < 10 then [''0123456789'' ! n]
      else str_nat (n div 10) @ [''0123456789'' ! (n mod 10)])"
  by pat_completeness auto
termination
  by (relation "measure id") auto

declare str_nat.simps [simp del]

definition str_int :: "int \<Rightarrow> string" where
  "str_int i = (if i < 0 then CHR ''-'' # str_nat (nat (- i)) else str_nat (nat i))"

text \<open>
  \<^verbatim>\<open>int(x)\<close>. In a string, surrounding white space is skipped, then an optional
  sign and decimal digits are read, single underscores allowed between digits. Among the
  code points below 256, the white space that \<^verbatim>\<open>int\<close> skips is the tab, the line feed,
  the vertical tab, the form feed, the carriage return, the space, U+0085 and U+00A0;
  the separators U+001C to U+001F are not skipped (unlike \<^verbatim>\<open>str.strip\<close>). The
  interpreter's limit on the number of digits of a literal is not modelled. A float is
  truncated towards zero.
\<close>

definition is_space :: "char \<Rightarrow> bool" where
  "is_space c = (c \<in> set [CHR 0x09, CHR 0x0A, CHR 0x0B, CHR 0x0C, CHR 0x0D, CHR 0x20,
                           CHR 0x85, CHR 0xA0])"

definition strip :: "string \<Rightarrow> string" where
  "strip s = rev (dropWhile is_space (rev (dropWhile is_space s)))"

definition digit_val :: "char \<Rightarrow> nat option" where
  "digit_val c =
     (let n = (of_char c :: nat) in if 48 \<le> n \<and> n \<le> 57 then Some (n - 48) else None)"

fun parse_digits :: "nat \<Rightarrow> bool \<Rightarrow> string \<Rightarrow> nat option" where
  "parse_digits acc prev [] = (if prev then Some acc else None)"
| "parse_digits acc prev (c # cs) =
     (case digit_val c of
        Some d \<Rightarrow> parse_digits (10 * acc + d) True cs
      | None \<Rightarrow> if c = CHR ''_'' \<and> prev then parse_digits acc False cs else None)"

definition parse_int :: "string \<Rightarrow> int option" where
  "parse_int s =
     (case strip s of
        [] \<Rightarrow> None
      | c # cs \<Rightarrow>
          if c = CHR ''-'' then map_option (\<lambda>n. - int n) (parse_digits 0 False cs)
          else if c = CHR ''+'' then map_option int (parse_digits 0 False cs)
          else map_option int (parse_digits 0 False (c # cs)))"

fun int_of :: "json \<Rightarrow> error + int" where
  "int_of (JInt i) = Inr i"
| "int_of (JBool b) = Inr (if b then 1 else 0)"
| "int_of (JFloat r) = Inr (if 0 \<le> r then \<lfloor>r\<rfloor> else \<lceil>r\<rceil>)"
| "int_of (JStr s) = (case parse_int s of None \<Rightarrow> Inl ValueError | Some i \<Rightarrow> Inr i)"
| "int_of JNull = Inl TypeError"
| "int_of (JArr xs) = Inl TypeError"
| "int_of (JObj kvs) = Inl TypeError"

text \<open>\<^verbatim>\<open>s.lower()\<close>, on ASCII letters.\<close>

definition lower :: "string \<Rightarrow> string" where
  "lower s =
     map (\<lambda>c. let n = (of_char c :: nat) in if 65 \<le> n \<and> n \<le> 90 then char_of (n + 32) else c) s"

section \<open>The world outside the script\<close>

text \<open>
  A command line of \<^verbatim>\<open>curl\<close>, as \<^verbatim>\<open>opensearch_command\<close> builds it. \<open>Dumps d\<close> is the
  argument \<^verbatim>\<open>json.dumps(d)\<close>, kept as the value it encodes.
\<close>

datatype arg = Arg string | Dumps json

type_synonym command = "arg list"

text \<open>
  What \<^verbatim>\<open>subprocess.run(command, check=True, capture_output=True, text=True)\<close> followed by
  \<^verbatim>\<open>json.loads(result.stdout)\<close> can give: a non-zero exit status (which \<^verbatim>\<open>check=True\<close>
  turns into \<^verbatim>\<open>CalledProcessError\<close>), an output that is not JSON, or a JSON document.
\<close>

datatype reply = NonZeroExit | NotJson string | Json json

text \<open>
  The world is a state \<open>'c\<close> (the cluster, the clock, the terminal) and what the script
  can ask of it: run a command, read the clock (\<^verbatim>\<open>int(time.time())\<close>), sleep, read a line
  from standard input (\<open>None\<close> at end of file).
\<close>

record 'c world =
  subprocess_run :: "'c \<Rightarrow> command \<Rightarrow> reply \<times> 'c"
  time_time :: "'c \<Rightarrow> int"
  time_sleep :: "nat \<Rightarrow> 'c \<Rightarrow> 'c"
  input :: "'c \<Rightarrow> string option \<times> 'c"

text \<open>
  What an observer sees of a run, in order: the commands executed and the lines
  printed. \<open>PrintVal p v\<close> is the line made of \<open>p\<close> followed by Python's text for the
  value \<open>v\<close>, \<open>PrintErr p e\<close> the line made of \<open>p\<close> followed by the message of \<open>e\<close>.
\<close>

datatype event =
    Exec command
  | Print string
  | PrintVal string json
  | PrintErr string error
  | Sleep nat
  | Prompt string

text \<open>
  A piece of the script is a function of the world's state that returns a value or
  raises, the new state, and the events of this piece.
\<close>

type_synonym ('c, 'a) prog = "'c \<Rightarrow> (error + 'a) \<times> 'c \<times> event list"

definition ret :: "'a \<Rightarrow> ('c, 'a) prog" where
  "ret a c = (Inr a, c, [])"

definition lift :: "error + 'a \<Rightarrow> ('c, 'a) prog" where
  "lift r c = (r, c, [])"

definition emit :: "event \<Rightarrow> ('c, unit) prog" where
  "emit e c = (Inr (), c, [e])"

definition pbind :: "('c, 'a) prog \<Rightarrow> ('a \<Rightarrow> ('c, 'b) prog) \<Rightarrow> ('c, 'b) prog" where
  "pbind m f c =
     (case m c of
        (Inl e, c', t) \<Rightarrow> (Inl e, c', t)
      | (Inr a, c', t) \<Rightarrow> (case f a c' of (r, c'', t') \<Rightarrow> (r, c'', t @ t')))"

text \<open>\<^verbatim>\<open>try: m except Exception as e: h e\<close>\<close>

definition try_except :: "('c, 'a) prog \<Rightarrow> (error \<Rightarrow> ('c, 'a) prog) \<Rightarrow> ('c, 'a) prog" where
  "try_except m h c =
     (case m c of
        (Inl e, c', t) \<Rightarrow> (case h e c' of (r, c'', t') \<Rightarrow> (r, c'', t @ t'))
      | (Inr a, c', t) \<Rightarrow> (Inr a, c', t))"

section \<open>The script\<close>

text \<open>
  The functions of \<^verbatim>\<open>main.py\<close>, in the order of the file. \<^verbatim>\<open>copy_template\<close> is called
  from nowhere (its call in \<^verbatim>\<open>main\<close> is commented out) and takes part in no run; it is
  left out.
\<close>

definition elasticsearch_url :: string where
  "elasticsearch_url = ''https://vpc-alero-qa-1-l32rqdjyd567ba76iimggxmmom.us-east-1.es.amazonaws.com''"

definition source_template :: string where
  "source_template = ''audit-v1''"

definition target_template :: string where
  "target_template = ''sharding_test_template''"

definition template_to_change :: "string list" where
  "template_to_change = [target_template]"

text \<open>\<^verbatim>\<open>os.environ.get('ELASTICSEARCH_URL', elasticsearch_url)\<close>, for the environment \<open>env\<close>.\<close>

definition opensearch_url :: "(string \<rightharpoonup> string) \<Rightarrow> string" where
  "opensearch_url env =
     (case env ''ELASTICSEARCH_URL'' of None \<Rightarrow> elasticsearch_url | Some u \<Rightarrow> u)"

text \<open>
  \<^verbatim>\<open>run_command\<close>, as every caller uses it (\<^verbatim>\<open>parse_json=True\<close>). A decode failure is
  printed and gives \<^verbatim>\<open>None\<close>; a non-zero exit status raises.
\<close>

definition run_command :: "'c world \<Rightarrow> command \<Rightarrow> ('c, json) prog" where
  "run_command w command c =
     (case subprocess_run w c command of
        (NonZeroExit, c') \<Rightarrow> (Inl CalledProcessError, c', [Exec command])
      | (NotJson out, c') \<Rightarrow>
          (Inr JNull, c', [Exec command, Print (''Failed to parse JSON: '' @ out)])
      | (Json j, c') \<Rightarrow> (Inr j, c', [Exec command]))"

text \<open>The command line of \<^verbatim>\<open>opensearch_command\<close>; \<^verbatim>\<open>data=None\<close> is \<open>JNull\<close>.\<close>

definition curl :: "string \<Rightarrow> string \<Rightarrow> json \<Rightarrow> command" where
  "curl meth endpoint data =
     [Arg ''curl'', Arg ''-s'', Arg ''-X'', Arg meth, Arg (elasticsearch_url @ ''/'' @ endpoint),
      Arg ''-H'', Arg ''Content-Type: application/json'']
     @ (if truthy data then [Arg ''-d'', Dumps data] else [])"

definition opensearch_command :: "'c world \<Rightarrow> string \<Rightarrow> string \<Rightarrow> json \<Rightarrow> ('c, json) prog" where
  "opensearch_command w meth endpoint data = run_command w (curl meth endpoint data)"

definition get_templates :: "'c world \<Rightarrow> ('c, json) prog" where
  "get_templates w =
     pbind (emit (Print ''Retrieving templates...'')) (\<lambda>_.
     opensearch_command w ''GET'' ''_template'' JNull)"

text \<open>One entry of \<^verbatim>\<open>template_details\<close>: the dict with these four keys.\<close>

record detail =
  t_name :: string
  t_shards :: json
  t_replicas :: json
  t_test_index :: string

text \<open>The body of the \<^verbatim>\<open>try\<close> in \<^verbatim>\<open>get_template_details\<close>, for one item of the dict.\<close>

definition template_detail :: "string \<Rightarrow> json \<Rightarrow> error + detail" where
  "template_detail template_name template_data =
     ebind (get template_data ''settings'' (JObj [])) (\<lambda>st.
     ebind (get st ''index'' (JObj [])) (\<lambda>settings.
     ebind (get settings ''number_of_shards'' (JStr ''default'')) (\<lambda>shards.
     ebind (get settings ''number_of_replicas'' (JStr ''default'')) (\<lambda>replicas.
     ebind (contains ''index_patterns'' template_data) (\<lambda>has_patterns.
     ebind (if has_patterns
            then ebind (getitem template_data ''index_patterns'') (\<lambda>patterns.
                 ebind (getitem0 patterns) (\<lambda>first. replace first CHR ''*'' ''_test''))
            else Inr (template_name @ ''_test'')) (\<lambda>pattern.
     Inr \<lparr>t_name = template_name, t_shards = shards, t_replicas = replicas,
          t_test_index = pattern\<rparr>))))))"

fun get_template_details :: "(string \<times> json) list \<Rightarrow> ('c, detail list) prog" where
  "get_template_details [] = ret []"
| "get_template_details ((template_name, template_data) # rest) =
     (case template_detail template_name template_data of
        Inr d \<Rightarrow> pbind (get_template_details rest) (\<lambda>ds. ret (d # ds))
      | Inl e \<Rightarrow>
          pbind (emit (PrintErr (''Error processing template '' @ template_name @ '': '') e)) (\<lambda>_.
          get_template_details rest))"

text \<open>
  Lines 83 to 90 of \<^verbatim>\<open>update_template\<close>: the fetched document is indexed by the template
  name and the two settings are written into it. Python mutates the nested dicts in
  place; the model rebuilds the enclosing dicts around the changed one.
\<close>

definition modify_settings :: "json \<Rightarrow> string \<Rightarrow> int \<Rightarrow> int \<Rightarrow> error + json" where
  "modify_settings current_template template_name nshards nreplicas =
     ebind (getitem current_template template_name) (\<lambda>config0.
     ebind (contains ''settings'' config0) (\<lambda>has_settings.
     ebind (if has_settings then Inr config0 else setitem config0 ''settings'' (JObj [])) (\<lambda>config1.
     ebind (getitem config1 ''settings'') (\<lambda>settings0.
     ebind (contains ''index'' settings0) (\<lambda>has_index.
     ebind (if has_index then Inr settings0 else setitem settings0 ''index'' (JObj [])) (\<lambda>settings1.
     ebind (getitem settings1 ''index'') (\<lambda>index0.
     ebind (setitem index0 ''number_of_shards'' (JStr (str_int nshards))) (\<lambda>index1.
     ebind (setitem index1 ''number_of_replicas'' (JStr (str_int nreplicas))) (\<lambda>index2.
     ebind (setitem settings1 ''index'' index2) (\<lambda>settings2.
     setitem config1 ''settings'' settings2))))))))))"

text \<open>\<^verbatim>\<open>response and response.get('acknowledged', False)\<close>\<close>

definition acknowledged :: "json \<Rightarrow> error + json" where
  "acknowledged response =
     (if \<not> truthy response then Inr response else get response ''acknowledged'' (JBool False))"

text \<open>\<^verbatim>\<open>not x or k not in x\<close>\<close>

definition absent :: "string \<Rightarrow> json \<Rightarrow> error + bool" where
  "absent k x = (if \<not> truthy x then Inr True else ebind (contains k x) (\<lambda>b. Inr (\<not> b)))"

definition update_template :: "'c world \<Rightarrow> string \<Rightarrow> int \<Rightarrow> int \<Rightarrow> ('c, json) prog" where
  "update_template w template_name nshards nreplicas =
     pbind (emit (Print (''Updating template '' @ template_name @ '' to '' @ str_int nshards
                         @ '' shard(s) and '' @ str_int nreplicas @ '' replica(s)...''))) (\<lambda>_.
     pbind (opensearch_command w ''GET'' (''_template/'' @ template_name) JNull) (\<lambda>current_template.
     pbind (lift (absent template_name current_template)) (\<lambda>missing.
     if missing then
       pbind (emit (Print (''Failed to retrieve template '' @ template_name))) (\<lambda>_.
       ret (JBool False))
     else
       pbind (lift (modify_settings current_template template_name nshards nreplicas)) (\<lambda>template_config.
       pbind (opensearch_command w ''PUT'' (''_template/'' @ template_name) template_config) (\<lambda>response.
       pbind (lift (acknowledged response)) (\<lambda>success.
       pbind (emit (if truthy success
                    then Print (''Successfully updated template '' @ template_name)
                    else PrintVal (''Failed to update template '' @ template_name @ '': '') response)) (\<lambda>_.
       ret success))))))) "

text \<open>
  \<^verbatim>\<open>response and 'result' in response and response['result'] in ['created', 'updated']\<close>
\<close>

definition created :: "json \<Rightarrow> error + json" where
  "created response =
     (if \<not> truthy response then Inr response
      else ebind (contains ''result'' response) (\<lambda>has_result.
           if \<not> has_result then Inr (JBool False)
           else ebind (getitem response ''result'') (\<lambda>r.
                Inr (JBool (r \<in> set [JStr ''created'', JStr ''updated''])))))"

text \<open>\<^verbatim>\<open>int(time.time())\<close>\<close>

definition now :: "'c world \<Rightarrow> ('c, int) prog" where
  "now w c = (Inr (time_time w c), c, [])"

text \<open>The test document \<^verbatim>\<open>doc\<close> of \<^verbatim>\<open>create_test_document\<close>.\<close>

definition doc :: "int \<Rightarrow> json" where
  "doc timestamp =
     JObj [(''test_field'', JStr ''test_value''),
           (''timestamp'', JInt timestamp),
           (''description'', JStr ''Test document for template validation'')]"

definition create_test_document :: "'c world \<Rightarrow> string \<Rightarrow> ('c, json) prog" where
  "create_test_document w index_name =
     pbind (emit (Print (''Creating test document in index '' @ index_name @ ''...''))) (\<lambda>_.
     pbind (now w) (\<lambda>timestamp.
     pbind (opensearch_command w ''POST'' (index_name @ ''/_doc'') (doc timestamp)) (\<lambda>response.
     pbind (lift (created response)) (\<lambda>success.
     pbind (emit (if truthy success
                  then Print (''Successfully created test document in '' @ index_name)
                  else PrintVal (''Failed to create test document in '' @ index_name @ '': '') response)) (\<lambda>_.
     ret success)))))"

text \<open>
  Lines 136 to 138 of \<^verbatim>\<open>verify_index_settings\<close>: the two counts read from the response,
  \<^verbatim>\<open>'-1'\<close> standing for a missing field.
\<close>

definition actual_counts :: "json \<Rightarrow> string \<Rightarrow> error + int \<times> int" where
  "actual_counts response index_name =
     ebind (getitem response index_name) (\<lambda>entry.
     ebind (get entry ''settings'' (JObj [])) (\<lambda>st.
     ebind (get st ''index'' (JObj [])) (\<lambda>settings.
     ebind (get settings ''number_of_shards'' (JStr ''-1'')) (\<lambda>s.
     ebind (int_of s) (\<lambda>actual_shards.
     ebind (get settings ''number_of_replicas'' (JStr ''-1'')) (\<lambda>r.
     ebind (int_of r) (\<lambda>actual_replicas.
     Inr (actual_shards, actual_replicas))))))))"

definition verify_index_settings :: "'c world \<Rightarrow> string \<Rightarrow> int \<Rightarrow> int \<Rightarrow> ('c, bool) prog" where
  "verify_index_settings w index_name expected_shards expected_replicas =
     pbind (emit (Print (''Verifying settings for index '' @ index_name @ ''...''))) (\<lambda>_.
     pbind (opensearch_command w ''GET'' (index_name @ ''/_settings'') JNull) (\<lambda>response.
     pbind (lift (absent index_name response)) (\<lambda>missing.
     if missing then
       pbind (emit (Print (''Failed to retrieve settings for index '' @ index_name))) (\<lambda>_.
       ret False)
     else
       pbind (lift (actual_counts response index_name)) (\<lambda>(actual_shards, actual_replicas).
       if actual_shards = expected_shards \<and> actual_replicas = expected_replicas then
         pbind (emit (Print (''Index '' @ index_name @ '' has correct settings: ''
                             @ str_int actual_shards @ '' shard(s) and ''
                             @ str_int actual_replicas @ '' replica(s)''))) (\<lambda>_.
         ret True)
       else
         pbind (emit (Print (''Index '' @ index_name @ '' has incorrect settings: ''
                             @ str_int actual_shards @ '' shard(s) and ''
                             @ str_int actual_replicas @ '' replica(s)''))) (\<lambda>_.
         ret False)))))"

definition delete_index :: "'c world \<Rightarrow> string \<Rightarrow> ('c, json) prog" where
  "delete_index w index_name =
     pbind (emit (Print (''Deleting index '' @ index_name @ ''...''))) (\<lambda>_.
     pbind (opensearch_command w ''DELETE'' index_name JNull) (\<lambda>response.
     pbind (lift (acknowledged response)) (\<lambda>success.
     pbind (emit (if truthy success
                  then Print (''Successfully deleted index '' @ index_name)
                  else PrintVal (''Failed to delete index '' @ index_name @ '': '') response)) (\<lambda>_.
     ret success))))"

text \<open>\<^verbatim>\<open>time.sleep(n)\<close> and \<^verbatim>\<open>input(prompt)\<close>\<close>

definition sleep :: "'c world \<Rightarrow> nat \<Rightarrow> ('c, unit) prog" where
  "sleep w n c = (Inr (), time_sleep w n c, [Sleep n])"

definition read_input :: "'c world \<Rightarrow> string \<Rightarrow> ('c, string) prog" where
  "read_input w prompt c =
     (case input w c of
        (None, c') \<Rightarrow> (Inl EOFError, c', [Prompt prompt])
      | (Some line, c') \<Rightarrow> (Inr line, c', [Prompt prompt]))"

text \<open>Lines 211 to 215 of \<^verbatim>\<open>main\<close>: the numbered list of templates.\<close>

fun display_templates :: "nat \<Rightarrow> detail list \<Rightarrow> ('c, unit) prog" where
  "display_templates idx [] = ret ()"
| "display_templates idx (template # rest) =
     pbind (emit (Print (str_nat idx @ ''. '' @ t_name template))) (\<lambda>_.
     pbind (emit (PrintVal ''   Shards: '' (t_shards template))) (\<lambda>_.
     pbind (emit (PrintVal ''   Replicas: '' (t_replicas template))) (\<lambda>_.
     pbind (emit (Print (''   Test index: '' @ t_test_index template))) (\<lambda>_.
     display_templates (Suc idx) rest))))"

text \<open>
  Lines 227 to 231 of \<^verbatim>\<open>main\<close>: every template is updated to one shard and one replica;
  the result is the pair of \<^verbatim>\<open>updated_templates\<close> and \<^verbatim>\<open>failed_templates\<close>.
\<close>

fun update_loop :: "'c world \<Rightarrow> detail list \<Rightarrow> ('c, detail list \<times> detail list) prog" where
  "update_loop w [] = ret ([], [])"
| "update_loop w (template # rest) =
     pbind (update_template w (t_name template) 1 1) (\<lambda>ok.
     pbind (update_loop w rest) (\<lambda>(updated, failed).
     ret (if truthy ok then (template # updated, failed) else (updated, template # failed))))"

text \<open>Lines 238 to 256 of \<^verbatim>\<open>main\<close>: the probe of one updated template.\<close>

definition test_template :: "'c world \<Rightarrow> detail \<Rightarrow> ('c, unit) prog" where
  "test_template w template =
     pbind (create_test_document w (t_test_index template)) (\<lambda>ok.
     if truthy ok then
       pbind (sleep w 2) (\<lambda>_.
       pbind (verify_index_settings w (t_test_index template) 1 1) (\<lambda>verified.
       pbind (delete_index w (t_test_index template)) (\<lambda>_.
       emit (Print (if verified
                    then ''Template '' @ t_name template @ '' was successfully updated and verified'' @ [CHR 0x0A]
                    else ''Template '' @ t_name template @ '' was updated but verification failed'' @ [CHR 0x0A])))))
     else
       emit (Print (''Failed to test template '' @ t_name template @ [CHR 0x0A])))"

fun test_loop :: "'c world \<Rightarrow> detail list \<Rightarrow> ('c, unit) prog" where
  "test_loop w [] = ret ()"
| "test_loop w (template # rest) = pbind (test_template w template) (\<lambda>_. test_loop w rest)"

text \<open>Lines 263 to 266 of \<^verbatim>\<open>main\<close>.\<close>

fun print_failed :: "detail list \<Rightarrow> ('c, unit) prog" where
  "print_failed [] = ret ()"
| "print_failed (template # rest) =
     pbind (emit (Print (''- '' @ t_name template))) (\<lambda>_. print_failed rest)"

text \<open>
  Line 204 of \<^verbatim>\<open>main\<close>: the dict comprehension that keeps the items whose key is in
  \<^verbatim>\<open>template_to_change\<close>.
\<close>

definition allowed :: "(string \<times> json) list \<Rightarrow> (string \<times> json) list" where
  "allowed its = filter (\<lambda>(k, v). k \<in> set template_to_change) its"

text \<open>
  Lines 204 to 272 of \<^verbatim>\<open>main\<close>, from the filter to the final \<^verbatim>\<open>return 0\<close>, for the
  items of the listing. The value is \<open>None\<close> for a bare \<^verbatim>\<open>return\<close>.
\<close>

definition main_templates :: "'c world \<Rightarrow> (string \<times> json) list \<Rightarrow> ('c, int option) prog" where
  "main_templates w its =
     pbind (get_template_details (allowed its)) (\<lambda>template_details.
     pbind (emit (Print (CHR 0x0A # ''Current Templates:''))) (\<lambda>_.
     pbind (emit (Print ''-----------------'')) (\<lambda>_.
     pbind (display_templates 1 template_details) (\<lambda>_.
     pbind (read_input w (CHR 0x0A # ''Update all templates to 1 shard and 1 replica? (y/n): '')) (\<lambda>proceed.
     if lower proceed \<noteq> ''y'' then
       pbind (emit (Print ''Operation canceled'')) (\<lambda>_.
       ret None)
     else
       pbind (update_loop w template_details) (\<lambda>(updated_templates, failed_templates).
       pbind (emit (Print (CHR 0x0A # ''Testing updated templates...''))) (\<lambda>_.
       pbind (emit (Print ''---------------------------'')) (\<lambda>_.
       pbind (test_loop w updated_templates) (\<lambda>_.
       pbind (emit (Print (CHR 0x0A # ''Summary:''))) (\<lambda>_.
       pbind (emit (Print ''--------'')) (\<lambda>_.
       pbind (emit (Print (''Templates updated: '' @ str_nat (length updated_templates)
                           @ ''/'' @ str_nat (length template_details)))) (\<lambda>_.
       pbind (if failed_templates \<noteq> []
              then pbind (emit (Print (CHR 0x0A # ''Failed templates:''))) (\<lambda>_.
                   print_failed failed_templates)
              else ret ()) (\<lambda>_.
       ret (Some 0))))))))))))))"

text \<open>The body of the \<^verbatim>\<open>try\<close> in \<^verbatim>\<open>main\<close>: lines 198 to 201, then the rest.\<close>

definition main_try :: "'c world \<Rightarrow> ('c, int option) prog" where
  "main_try w =
     pbind (get_templates w) (\<lambda>templates.
     if \<not> truthy templates then
       pbind (emit (Print ''No templates found or error retrieving templates'')) (\<lambda>_.
       ret None)
     else
       pbind (lift (items templates)) (main_templates w))"

definition main :: "'c world \<Rightarrow> ('c, int option) prog" where
  "main w =
     pbind (emit (Print ''OpenSearch Template Management Tool'')) (\<lambda>_.
     pbind (emit (Print (''================================='' @ [CHR 0x0A]))) (\<lambda>_.
     try_except (main_try w) (\<lambda>e.
       pbind (emit (PrintErr ''An error occurred: '' e)) (\<lambda>_.
       ret (Some 1)))))"

section \<open>A cluster to run the script against\<close>

text \<open>
  A small cluster for running the definitions on concrete inputs: its state is the
  list of replies still to give, one per command, in order. When the list is empty
  every command exits with a non-zero status. The clock stands still and the user
  answers \<open>y\<close>.
\<close>

definition scripted :: "reply list world" where
  "scripted =
     \<lparr>subprocess_run = (\<lambda>rs command. case rs of [] \<Rightarrow> (NonZeroExit, []) | r # rest \<Rightarrow> (r, rest)),
      time_time = (\<lambda>rs. 1700000000),
      time_sleep = (\<lambda>n rs. rs),
      input = (\<lambda>rs. (Some ''y'', rs))\<rparr>"

text \<open>
  A template as the cluster stores it, the same template after the update to one shard
  and one replica, and the cluster's acknowledgement.
\<close>

definition stored :: json where
  "stored = JObj [(''order'', JInt 0),
                  (''index_patterns'', JArr [JStr ''sharding_test_template*'']),
                  (''settings'', JObj [(''index'', JObj [(''number_of_shards'', JStr ''5''),
                                                        (''number_of_replicas'', JStr ''2''),
                                                        (''refresh_interval'', JStr ''30s'')])]),
                  (''mappings'', JObj [])]"

definition patched :: json where
  "patched = JObj [(''order'', JInt 0),
                  (''index_patterns'', JArr [JStr ''sharding_test_template*'']),
                  (''settings'', JObj [(''index'', JObj [(''number_of_shards'', JStr ''1''),
                                                        (''number_of_replicas'', JStr ''1''),
                                                        (''refresh_interval'', JStr ''30s'')])]),
                  (''mappings'', JObj [])]"

definition ack :: reply where
  "ack = Json (JObj [(''acknowledged'', JBool True)])"

text \<open>The entry of \<^verbatim>\<open>template_details\<close> for the stored template.\<close>

definition stored_detail :: detail where
  "stored_detail =
     \<lparr>t_name = ''sharding_test_template'', t_shards = JStr ''5'', t_replicas = JStr ''2'',
      t_test_index = ''sharding_test_template_test''\<rparr>"

text \<open>The cluster's answer to the GET of the settings of the test index.\<close>

definition settings_reply :: "string \<Rightarrow> string \<Rightarrow> reply" where
  "settings_reply sh rp =
     Json (JObj [(''sharding_test_template_test'',
       JObj [(''settings'', JObj [(''index'', JObj [(''number_of_shards'', JStr sh),
                                                   (''number_of_replicas'', JStr rp)])])])])"

section \<open>Reading the specification\<close>

text \<open>
  The specification derives the test index name by substituting the first wildcard of
  the pattern. \<open>replace_first\<close> follows these words, to be compared with what
  \<^verbatim>\<open>str.replace\<close> does in \<open>template_detail\<close>.
\<close>

fun replace_first :: "char \<Rightarrow> string \<Rightarrow> string \<Rightarrow> string" where
  "replace_first c new [] = []"
| "replace_first c new (x # xs) = (if x = c then new @ xs else x # replace_first c new xs)"

section \<open>Observing a run\<close>

text \<open>The commands executed in a run, in order.\<close>

fun commands :: "event list \<Rightarrow> command list" where
  "commands [] = []"
| "commands (Exec cmd # t) = cmd # commands t"
| "commands (Print s # t) = commands t"
| "commands (PrintVal s v # t) = commands t"
| "commands (PrintErr s e # t) = commands t"
| "commands (Sleep n # t) = commands t"
| "commands (Prompt s # t) = commands t"


text \<open>
  How often a run asks for the deletion of the index \<open>i\<close>, and how often it reports
  that the probe document was created in \<open>i\<close> (the line that \<open>create_test_document\<close>
  prints exactly when it succeeds).
\<close>

definition deletions :: "string \<Rightarrow> event list \<Rightarrow> nat" where
  "deletions i t = count_list t (Exec (curl ''DELETE'' i JNull))"

definition probes_created :: "string \<Rightarrow> event list \<Rightarrow> nat" where
  "probes_created i t = count_list t (Print (''Successfully created test document in '' @ i))"

text \<open>
  A piece of the script is \<open>quiet\<close> for an index when it neither deletes it nor reports
  a probe in it; it \<open>cleans_up\<close> when it never deletes more often than it has created a
  probe and, if it ends without raising, has deleted as often as it has created.
\<close>

definition quiet :: "string \<Rightarrow> ('c, 'a) prog \<Rightarrow> bool" where
  "quiet i m = (\<forall>c. deletions i (snd (snd (m c))) = 0 \<and> probes_created i (snd (snd (m c))) = 0)"

definition cleans_up :: "string \<Rightarrow> ('c, 'a) prog \<Rightarrow> bool" where
  "cleans_up i m =
     (\<forall>c. deletions i (snd (snd (m c))) \<le> probes_created i (snd (snd (m c))) \<and>
          (isl (fst (m c)) \<or> deletions i (snd (snd (m c))) = probes_created i (snd (snd (m c)))))"

text \<open>
  A piece \<open>settles\<close> a debt of \<open>d\<close> deletions of \<open>i\<close> when it deletes at most \<open>d\<close>
  times more often than it creates, and exactly \<open>d\<close> times more often if it ends
  without raising.
\<close>

definition settles :: "string \<Rightarrow> nat \<Rightarrow> ('c, 'a) prog \<Rightarrow> bool" where
  "settles i d m =
     (\<forall>c. deletions i (snd (snd (m c))) \<le> probes_created i (snd (snd (m c))) + d \<and>
          (isl (fst (m c)) \<or> deletions i (snd (snd (m c))) = probes_created i (snd (snd (m c))) + d))"

text \<open>
  A command addresses an endpoint with a method when its first seven arguments are
  those of \<open>curl\<close> for them, whatever data follow. A command is about a template, given
  its entry in \<^verbatim>\<open>template_details\<close>, when it reads or writes the template or probes,
  inspects or deletes its test index.
\<close>

definition addresses :: "string \<Rightarrow> string \<Rightarrow> command \<Rightarrow> bool" where
  "addresses meth endpoint cmd = (take 7 cmd = curl meth endpoint JNull)"




section \<open>Python values: basic facts\<close>

lemma ebind_Inr_iff: "ebind r f = Inr b \<longleftrightarrow> (\<exists>a. r = Inr a \<and> f a = Inr b)"
  by (cases r) (simp_all add: ebind_def)

lemma ebind_Inr [simp]: "ebind (Inr a) f = f a"
  by (simp add: ebind_def)

lemma ebind_Inl [simp]: "ebind (Inl e) f = Inl e"
  by (simp add: ebind_def)

lemma contains_obj: "contains k (JObj kvs) = Inr (map_of kvs k \<noteq> None)"
  by (simp add: map_of_eq_None_iff)

lemma str_replace_Nil: "str_replace c new [] = []"
  by (simp add: str_replace_def)

lemma str_replace_Cons:
  "str_replace c new (x # xs) = (if x = c then new else [x]) @ str_replace c new xs"
  by (simp add: str_replace_def)

lemma str_replace_absent: "c \<notin> set s \<Longrightarrow> str_replace c new s = s"
  by (induction s) (auto simp: str_replace_Nil str_replace_Cons)

lemma str_replace_once:
  "count_list s c \<le> 1 \<Longrightarrow> str_replace c new s = replace_first c new s"
proof (induction s)
  case Nil
  show ?case by (simp add: str_replace_Nil)
next
  case (Cons x xs)
  show ?case
  proof (cases "x = c")
    case True
    with Cons.prems have "count_list xs c = 0" by simp
    then have "c \<notin> set xs" by (simp add: count_list_0_iff)
    with True show ?thesis by (simp add: str_replace_Cons str_replace_absent)
  next
    case False
    with Cons show ?thesis by (simp add: str_replace_Cons)
  qed
qed

lemma str_replace_removes: "c \<notin> set new \<Longrightarrow> c \<notin> set (str_replace c new s)"
  by (induction s) (auto simp: str_replace_Nil str_replace_Cons)

section \<open>The test index name\<close>

text \<open>
  C4, as the code has it. When the details of a template are extracted, the test index
  name is \<open>template_name\<close> followed by \<open>_test\<close> if the template has no
  \<open>index_patterns\<close> field; if the field is a list whose first entry is the string
  \<open>p\<close>, the name is \<open>p\<close> with every \<open>*\<close> replaced by \<open>_test\<close>, so that no
  wildcard is left in it. This is the substitution of the first wildcard exactly when
  \<open>p\<close> has at most one.
\<close>

theorem test_index_derivation:
  assumes "template_detail template_name (JObj kvs) = Inr d"
  shows "(map_of kvs ''index_patterns'' = None \<longrightarrow> t_test_index d = template_name @ ''_test'') \<and>
         (\<forall>p rest. map_of kvs ''index_patterns'' = Some (JArr (JStr p # rest)) \<longrightarrow>
            t_test_index d = str_replace CHR ''*'' ''_test'' p \<and>
            CHR ''*'' \<notin> set (t_test_index d) \<and>
            (count_list p CHR ''*'' \<le> 1 \<longrightarrow> t_test_index d = replace_first CHR ''*'' ''_test'' p))"
proof (intro conjI allI impI)
  assume "map_of kvs ''index_patterns'' = None"
  with assms show "t_test_index d = template_name @ ''_test''"
    unfolding template_detail_def contains_obj by (auto simp: ebind_Inr_iff)
next
  fix p rest
  assume pat: "map_of kvs ''index_patterns'' = Some (JArr (JStr p # rest))"
  with assms show 1: "t_test_index d = str_replace CHR ''*'' ''_test'' p"
    unfolding template_detail_def contains_obj by (auto simp: ebind_Inr_iff)
  show "CHR ''*'' \<notin> set (t_test_index d)"
    unfolding 1 by (rule str_replace_removes) simp
  assume "count_list p CHR ''*'' \<le> 1"
  then show "t_test_index d = replace_first CHR ''*'' ''_test'' p"
    unfolding 1 by (rule str_replace_once)
qed

text \<open>
  The scenario of the specification, \<open>index_patterns = ["audit-*"]\<close>, and a template
  without patterns.
\<close>

theorem test_index_derivation_witness:
  "template_detail ''audit'' (JObj [(''index_patterns'', JArr [JStr ''audit-*''])])
     = Inr \<lparr>t_name = ''audit'', t_shards = JStr ''default'', t_replicas = JStr ''default'',
            t_test_index = ''audit-_test''\<rparr> \<and>
   ''audit-_test'' = replace_first CHR ''*'' ''_test'' ''audit-*'' \<and>
   template_detail ''audit-v1'' (JObj [])
     = Inr \<lparr>t_name = ''audit-v1'', t_shards = JStr ''default'', t_replicas = JStr ''default'',
            t_test_index = ''audit-v1_test''\<rparr>"
proof -
  have a: "template_detail ''audit'' (JObj [(''index_patterns'', JArr [JStr ''audit-*''])])
     = Inr \<lparr>t_name = ''audit'', t_shards = JStr ''default'', t_replicas = JStr ''default'',
            t_test_index = ''audit-_test''\<rparr>"
    by (simp add: template_detail_def str_replace_def)
  have b: "template_detail ''audit-v1'' (JObj [])
     = Inr \<lparr>t_name = ''audit-v1'', t_shards = JStr ''default'', t_replicas = JStr ''default'',
            t_test_index = ''audit-v1_test''\<rparr>"
    by (simp add: template_detail_def)
  from test_index_derivation [OF a] test_index_derivation [OF b] a b show ?thesis by simp
qed

text \<open>
  A pattern with two wildcards: both are replaced, where the substitution of the first
  one alone would leave the second.
\<close>

theorem test_index_first_wildcard_counterexample:
  "template_detail ''t'' (JObj [(''index_patterns'', JArr [JStr ''*-audit-*''])])
     = Inr \<lparr>t_name = ''t'', t_shards = JStr ''default'', t_replicas = JStr ''default'',
            t_test_index = ''_test-audit-_test''\<rparr> \<and>
   replace_first CHR ''*'' ''_test'' ''*-audit-*'' = ''_test-audit-*'' \<and>
   ''_test-audit-_test'' \<noteq> replace_first CHR ''*'' ''_test'' ''*-audit-*''"
  by (simp add: template_detail_def str_replace_def)

section \<open>The cluster address\<close>

text \<open>
  C5. \<open>opensearch_url\<close> reads the environment, but no command is built from it: with
  \<open>ELASTICSEARCH_URL\<close> set to \<open>http://localhost:9200\<close>, the command of
  \<open>opensearch_command\<close> still addresses the built-in \<open>elasticsearch_url\<close>.
\<close>

theorem environment_url_not_used:
  "opensearch_url [''ELASTICSEARCH_URL'' \<mapsto> ''http://localhost:9200''] = ''http://localhost:9200'' \<and>
   curl ''GET'' ''_template'' JNull ! 4 = Arg (elasticsearch_url @ ''/_template'') \<and>
   curl ''GET'' ''_template'' JNull ! 4
     \<noteq> Arg (opensearch_url [''ELASTICSEARCH_URL'' \<mapsto> ''http://localhost:9200''] @ ''/_template'')"
  by (simp add: opensearch_url_def curl_def elasticsearch_url_def)

section \<open>Running a piece of the script\<close>

lemma commands_append [simp]: "commands (t @ u) = commands t @ commands u"
  by (induction t rule: commands.induct) simp_all

lemma pbind_emit [simp]:
  "pbind (emit e) f c = (case f () c of (r, c', t) \<Rightarrow> (r, c', e # t))"
  by (simp add: pbind_def emit_def)

lemma pbind_ret [simp]: "pbind (ret a) f c = f a c"
  by (simp add: pbind_def ret_def split: prod.splits)

lemma pbind_lift [simp]:
  "pbind (lift r) f c = (case r of Inl e \<Rightarrow> (Inl e, c, []) | Inr a \<Rightarrow> f a c)"
  by (simp add: pbind_def lift_def split: prod.splits sum.splits)

lemma pbind_opensearch_command:
  "pbind (opensearch_command w meth endpoint d) f c =
     (case subprocess_run w c (curl meth endpoint d) of
        (NonZeroExit, c') \<Rightarrow> (Inl CalledProcessError, c', [Exec (curl meth endpoint d)])
      | (NotJson out, c') \<Rightarrow>
          (case f JNull c' of (r, c'', t) \<Rightarrow>
             (r, c'', Exec (curl meth endpoint d) # Print (''Failed to parse JSON: '' @ out) # t))
      | (Json j, c') \<Rightarrow>
          (case f j c' of (r, c'', t) \<Rightarrow> (r, c'', Exec (curl meth endpoint d) # t)))"
  by (simp add: pbind_def opensearch_command_def run_command_def split: prod.splits reply.splits)

lemma absent_obj: "absent k (JObj kvs) = Inr (map_of kvs k = None)"
  by (cases kvs) (auto simp: absent_def map_of_eq_None_iff)

lemma absent_falsy: "\<not> truthy j \<Longrightarrow> absent k j = Inr True"
  by (simp add: absent_def)

lemma modify_settings_not_obj:
  "\<forall>kvs. j \<noteq> JObj kvs \<Longrightarrow> modify_settings j n sh rp = Inl TypeError"
  by (cases j) (simp_all add: modify_settings_def)

text \<open>The definitions that a run on a concrete world unfolds.\<close>

lemmas run_defs =
  main_def main_try_def main_templates_def allowed_def try_except_def get_templates_def pbind_opensearch_command
  scripted_def stored_def ack_def template_to_change_def target_template_def template_detail_def
  str_replace_def str_nat.simps read_input_def lower_def
  update_template_def absent_def modify_settings_def acknowledged_def ret_def
  test_template_def create_test_document_def doc_def created_def
  verify_index_settings_def actual_counts_def parse_int_def strip_def is_space_def digit_val_def
  delete_index_def settings_reply_def str_int_def
  pbind_def emit_def lift_def now_def sleep_def opensearch_command_def run_command_def

section \<open>The template that cannot be fetched\<close>

lemma update_template_get:
  assumes "subprocess_run w c (curl ''GET'' (''_template/'' @ n) JNull) = (rep, c')"
  shows "rep = NonZeroExit \<Longrightarrow> fst (update_template w n sh rp c) = Inl CalledProcessError"
    and "rep = NotJson out \<Longrightarrow> fst (update_template w n sh rp c) = Inr (JBool False)"
    and "rep = Json j \<Longrightarrow> absent n j = Inr True \<Longrightarrow> fst (update_template w n sh rp c) = Inr (JBool False)"
    and "rep = Json j \<Longrightarrow> absent n j = Inl e \<Longrightarrow> fst (update_template w n sh rp c) = Inl e"
    and "rep = Json j \<Longrightarrow> absent n j = Inr False \<Longrightarrow> modify_settings j n sh rp = Inl e
           \<Longrightarrow> fst (update_template w n sh rp c) = Inl e"
  using assms
  by (simp_all add: update_template_def pbind_opensearch_command absent_def ret_def)

text \<open>
  C10, as the code has it. Let \<open>rep\<close> be the reply to the first request of
  \<open>update_template\<close>, the GET of the template. If \<open>rep\<close> is not JSON, decodes to
  \<^verbatim>\<open>None\<close> or to another false value, or is a body that does not contain the template
  name (an object without this key; also a list or a string without it), then
  \<open>update_template\<close> returns \<^verbatim>\<open>False\<close>. If \<^verbatim>\<open>curl\<close> exits with a non-zero status,
  \<open>update_template\<close> raises \<^verbatim>\<open>CalledProcessError\<close>; if \<open>rep\<close> is \<^verbatim>\<open>true\<close>, a number
  other than zero, or a list or string that contains the name, it raises
  \<^verbatim>\<open>TypeError\<close>. Whenever \<open>rep\<close> is not an object with the template name as a key, the
  GET is the only command executed: no PUT is issued, whether the function returns or
  raises.
\<close>

theorem update_template_missing:
  assumes "subprocess_run w c (curl ''GET'' (''_template/'' @ n) JNull) = (rep, c')"
  shows "((\<exists>out. rep = NotJson out) \<or> (\<exists>j. rep = Json j \<and> \<not> truthy j) \<or>
          (\<exists>kvs. rep = Json (JObj kvs) \<and> map_of kvs n = None) \<or>
          (\<exists>xs. rep = Json (JArr xs) \<and> JStr n \<notin> set xs) \<or>
          (\<exists>s. rep = Json (JStr s) \<and> \<not> sublist n s) \<longrightarrow>
            fst (update_template w n sh rp c) = Inr (JBool False)) \<and>
         (rep = NonZeroExit \<longrightarrow> fst (update_template w n sh rp c) = Inl CalledProcessError) \<and>
         (rep = Json (JBool True) \<or> (\<exists>i. rep = Json (JInt i) \<and> i \<noteq> 0) \<or>
          (\<exists>r. rep = Json (JFloat r) \<and> r \<noteq> 0) \<or>
          (\<exists>xs. rep = Json (JArr xs) \<and> JStr n \<in> set xs) \<or>
          (\<exists>s. rep = Json (JStr s) \<and> s \<noteq> [] \<and> sublist n s) \<longrightarrow>
            fst (update_template w n sh rp c) = Inl TypeError) \<and>
         ((\<forall>kvs. rep = Json (JObj kvs) \<longrightarrow> map_of kvs n = None) \<longrightarrow>
            commands (snd (snd (update_template w n sh rp c))) = [curl ''GET'' (''_template/'' @ n) JNull] \<and>
            fst (snd (update_template w n sh rp c)) = c')"
proof (intro conjI impI)
  assume "(\<exists>out. rep = NotJson out) \<or> (\<exists>j. rep = Json j \<and> \<not> truthy j) \<or>
          (\<exists>kvs. rep = Json (JObj kvs) \<and> map_of kvs n = None) \<or>
          (\<exists>xs. rep = Json (JArr xs) \<and> JStr n \<notin> set xs) \<or>
          (\<exists>s. rep = Json (JStr s) \<and> \<not> sublist n s)"
  then consider
    (notjson) out where "rep = NotJson out" |
    (falsy) j where "rep = Json j" "\<not> truthy j" |
    (obj) kvs where "rep = Json (JObj kvs)" "map_of kvs n = None" |
    (arr) xs where "rep = Json (JArr xs)" "JStr n \<notin> set xs" |
    (str) s where "rep = Json (JStr s)" "\<not> sublist n s"
    by blast
  then show "fst (update_template w n sh rp c) = Inr (JBool False)"
  proof cases
    case notjson
    then show ?thesis by (rule update_template_get(2) [OF assms])
  next
    case falsy
    from falsy(2) have "absent n j = Inr True" by (rule absent_falsy)
    with falsy(1) show ?thesis by (rule update_template_get(3) [OF assms])
  next
    case obj
    from obj(2) have "absent n (JObj kvs) = Inr True" by (simp add: absent_obj)
    with obj(1) show ?thesis by (rule update_template_get(3) [OF assms])
  next
    case arr
    from arr(2) have "absent n (JArr xs) = Inr True" by (simp add: absent_def)
    with arr(1) show ?thesis by (rule update_template_get(3) [OF assms])
  next
    case str
    from str(2) have "absent n (JStr s) = Inr True" by (simp add: absent_def)
    with str(1) show ?thesis by (rule update_template_get(3) [OF assms])
  qed
next
  assume "rep = NonZeroExit"
  then show "fst (update_template w n sh rp c) = Inl CalledProcessError"
    by (rule update_template_get(1) [OF assms])
next
  assume "rep = Json (JBool True) \<or> (\<exists>i. rep = Json (JInt i) \<and> i \<noteq> 0) \<or>
          (\<exists>r. rep = Json (JFloat r) \<and> r \<noteq> 0) \<or>
          (\<exists>xs. rep = Json (JArr xs) \<and> JStr n \<in> set xs) \<or>
          (\<exists>s. rep = Json (JStr s) \<and> s \<noteq> [] \<and> sublist n s)"
  then consider
    (bool) "rep = Json (JBool True)" |
    (int) i where "rep = Json (JInt i)" "i \<noteq> 0" |
    (float) r where "rep = Json (JFloat r)" "r \<noteq> 0" |
    (arr) xs where "rep = Json (JArr xs)" "JStr n \<in> set xs" |
    (str) s where "rep = Json (JStr s)" "s \<noteq> []" "sublist n s"
    by blast
  then show "fst (update_template w n sh rp c) = Inl TypeError"
  proof cases
    case bool
    have "absent n (JBool True) = Inl TypeError" by (simp add: absent_def)
    with bool show ?thesis by (rule update_template_get(4) [OF assms])
  next
    case int
    from int(2) have "absent n (JInt i) = Inl TypeError" by (simp add: absent_def)
    with int(1) show ?thesis by (rule update_template_get(4) [OF assms])
  next
    case float
    from float(2) have "absent n (JFloat r) = Inl TypeError" by (simp add: absent_def)
    with float(1) show ?thesis by (rule update_template_get(4) [OF assms])
  next
    case arr
    then have "xs \<noteq> []" by auto
    with arr(2) have "absent n (JArr xs) = Inr False" by (simp add: absent_def)
    moreover have "modify_settings (JArr xs) n sh rp = Inl TypeError"
      by (simp add: modify_settings_def)
    ultimately show ?thesis by (rule update_template_get(5) [OF assms arr(1)])
  next
    case str
    then have "absent n (JStr s) = Inr False" by (simp add: absent_def)
    moreover have "modify_settings (JStr s) n sh rp = Inl TypeError"
      by (simp add: modify_settings_def)
    ultimately show ?thesis by (rule update_template_get(5) [OF assms str(1)])
  qed
next
  assume noobj: "\<forall>kvs. rep = Json (JObj kvs) \<longrightarrow> map_of kvs n = None"
  have "commands (snd (snd (update_template w n sh rp c))) = [curl ''GET'' (''_template/'' @ n) JNull]
        \<and> fst (snd (update_template w n sh rp c)) = c'"
  proof (cases rep)
    case (Json j)
    show ?thesis
    proof (cases "\<exists>kvs. j = JObj kvs")
      case True
      with noobj Json assms show ?thesis
        by (auto simp: update_template_def pbind_opensearch_command absent_obj ret_def)
    next
      case False
      then have "modify_settings j n sh rp = Inl TypeError"
        by (simp add: modify_settings_not_obj)
      with Json assms show ?thesis
        by (auto simp: update_template_def pbind_opensearch_command ret_def split: sum.splits)
    qed
  qed (use assms in \<open>auto simp: update_template_def pbind_opensearch_command absent_falsy ret_def\<close>)
  then show "commands (snd (snd (update_template w n sh rp c))) = [curl ''GET'' (''_template/'' @ n) JNull]"
    and "fst (snd (update_template w n sh rp c)) = c'"
    by simp_all
qed

text \<open>The cluster answers the GET of \<open>sharding_test_template\<close> with another template.\<close>

theorem update_template_missing_witness:
  "fst (update_template scripted ''sharding_test_template'' 1 1 [Json (JObj [(''other'', JObj [])])])
     = Inr (JBool False) \<and>
   commands (snd (snd (update_template scripted ''sharding_test_template'' 1 1
                         [Json (JObj [(''other'', JObj [])])])))
     = [curl ''GET'' ''_template/sharding_test_template'' JNull] \<and>
   fst (snd (update_template scripted ''sharding_test_template'' 1 1
                         [Json (JObj [(''other'', JObj [])])])) = []"
proof -
  have run: "subprocess_run scripted [Json (JObj [(''other'', JObj [])])]
               (curl ''GET'' (''_template/'' @ ''sharding_test_template'') JNull)
             = (Json (JObj [(''other'', JObj [])]), [])"
    by (simp add: scripted_def)
  from update_template_missing [OF run, of 1 1] show ?thesis by simp
qed

text \<open>
  The GET meets a transport failure (the scripted cluster has no reply, so \<^verbatim>\<open>curl\<close>
  exits with a non-zero status): no body is obtained, and \<open>update_template\<close> does not
  return \<^verbatim>\<open>False\<close> but raises.
\<close>

theorem update_template_get_failure_counterexample:
  "fst (update_template scripted ''sharding_test_template'' 1 1 []) = Inl CalledProcessError \<and>
   commands (snd (snd (update_template scripted ''sharding_test_template'' 1 1 [])))
     = [curl ''GET'' ''_template/sharding_test_template'' JNull]"
  by (simp add: update_template_def pbind_opensearch_command scripted_def)

section \<open>The answer to the PUT\<close>





lemma str_int_1 [simp]: "str_int 1 = ''1''"
  by (simp add: str_int_def str_nat.simps)




section \<open>Writing the settings into the template\<close>

lemma key_in_iff: "k \<in> fst ` set kvs \<longleftrightarrow> map_of kvs k \<noteq> None"
  by (simp add: map_of_eq_None_iff)

lemma getitem_Inr_iff:
  "getitem x k = Inr v \<longleftrightarrow> (\<exists>kvs. x = JObj kvs \<and> map_of kvs k = Some v)"
  by (cases x) (auto split: option.splits)

lemma setitem_Inr_iff:
  "setitem x k v = Inr y \<longleftrightarrow> (\<exists>kvs. x = JObj kvs \<and> y = JObj (AList.update k v kvs))"
  by (cases x) auto

text \<open>
  One level of lines 84 to 87: the dict under key \<open>k\<close> of \<open>x\<close>, created empty if the key
  is missing.
\<close>

lemma ensure_key:
  assumes "contains k x = Inr has"
    and "(if has then Inr x else setitem x k (JObj [])) = Inr y"
    and "getitem y k = Inr v"
  shows "\<exists>kvs. x = JObj kvs \<and>
           (map_of kvs k = None \<and> v = JObj [] \<and> y = JObj (AList.update k (JObj []) kvs)
            \<or> map_of kvs k = Some v \<and> y = x)"
proof (cases has)
  case True
  with assms show ?thesis by (auto simp: getitem_Inr_iff)
next
  case False
  with assms(2) obtain kvs where x: "x = JObj kvs" and y: "y = JObj (AList.update k (JObj []) kvs)"
    by (auto simp: setitem_Inr_iff)
  from assms(1) False x have "map_of kvs k = None"
    by (simp add: key_in_iff)
  moreover from assms(3) y have "v = JObj []"
    by (simp add: update_conv')
  ultimately show ?thesis using x y by simp
qed

lemma modify_settings_Inr:
  assumes "modify_settings cur n sh rp = Inr b"
  shows "\<exists>top body s0 i0.
           cur = JObj top \<and> map_of top n = Some (JObj body) \<and>
           (map_of body ''settings'' = None \<and> s0 = [] \<or> map_of body ''settings'' = Some (JObj s0)) \<and>
           (map_of s0 ''index'' = None \<and> i0 = [] \<or> map_of s0 ''index'' = Some (JObj i0)) \<and>
           b = JObj (AList.update ''settings''
                 (JObj (AList.update ''index''
                    (JObj (AList.update ''number_of_replicas'' (JStr (str_int rp))
                       (AList.update ''number_of_shards'' (JStr (str_int sh)) i0))) s0)) body)"
proof -
  from assms obtain c0 hs c1 st0 hi st1 ix0 ix1 ix2 st2 where
    g0: "getitem cur n = Inr c0" and
    hs: "contains ''settings'' c0 = Inr hs" and
    c1: "(if hs then Inr c0 else setitem c0 ''settings'' (JObj [])) = Inr c1" and
    st0: "getitem c1 ''settings'' = Inr st0" and
    hi: "contains ''index'' st0 = Inr hi" and
    st1: "(if hi then Inr st0 else setitem st0 ''index'' (JObj [])) = Inr st1" and
    ix0: "getitem st1 ''index'' = Inr ix0" and
    ix1: "setitem ix0 ''number_of_shards'' (JStr (str_int sh)) = Inr ix1" and
    ix2: "setitem ix1 ''number_of_replicas'' (JStr (str_int rp)) = Inr ix2" and
    st2: "setitem st1 ''index'' ix2 = Inr st2" and
    b: "setitem c1 ''settings'' st2 = Inr b"
    unfolding modify_settings_def ebind_Inr_iff by blast
  from g0 obtain top where top: "cur = JObj top" "map_of top n = Some c0"
    by (auto simp: getitem_Inr_iff)
  from ensure_key [OF hs c1 st0] obtain body where body: "c0 = JObj body"
    and lvl1: "map_of body ''settings'' = None \<and> st0 = JObj [] \<and> c1 = JObj (AList.update ''settings'' (JObj []) body)
               \<or> map_of body ''settings'' = Some st0 \<and> c1 = c0"
    by blast
  from ensure_key [OF hi st1 ix0] obtain s0 where s0: "st0 = JObj s0"
    and lvl2: "map_of s0 ''index'' = None \<and> ix0 = JObj [] \<and> st1 = JObj (AList.update ''index'' (JObj []) s0)
               \<or> map_of s0 ''index'' = Some ix0 \<and> st1 = st0"
    by blast
  from ix1 obtain i0 where i0: "ix0 = JObj i0"
    by (auto simp: setitem_Inr_iff)
  from ix1 ix2 i0 have ix2': "ix2 = JObj (AList.update ''number_of_replicas'' (JStr (str_int rp))
                       (AList.update ''number_of_shards'' (JStr (str_int sh)) i0))"
    by (auto simp: setitem_Inr_iff)
  from st2 lvl2 s0 have st2': "st2 = JObj (AList.update ''index'' ix2 s0)"
    by (auto simp: setitem_Inr_iff)
  from b lvl1 body have b': "b = JObj (AList.update ''settings'' st2 body)"
    by (auto simp: setitem_Inr_iff)
  from lvl1 s0 have A: "map_of body ''settings'' = None \<and> s0 = [] \<or> map_of body ''settings'' = Some (JObj s0)"
    by auto
  from lvl2 i0 have B: "map_of s0 ''index'' = None \<and> i0 = [] \<or> map_of s0 ''index'' = Some (JObj i0)"
    by auto
  from top body A B b' st2' ix2' show ?thesis by blast
qed

text \<open>Writing the same settings into a document that already has them changes nothing.\<close>

lemma modify_settings_again:
  assumes "modify_settings cur n sh rp = Inr b" and "getitem cur2 n = Inr b"
  shows "modify_settings cur2 n sh rp = Inr b"
proof -
  from modify_settings_Inr [OF assms(1)] obtain body s0 i0 where
    b: "b = JObj (AList.update ''settings''
                 (JObj (AList.update ''index''
                    (JObj (AList.update ''number_of_replicas'' (JStr (str_int rp))
                       (AList.update ''number_of_shards'' (JStr (str_int sh)) i0))) s0)) body)"
    by blast
  define i2 where "i2 = AList.update ''number_of_replicas'' (JStr (str_int rp))
                       (AList.update ''number_of_shards'' (JStr (str_int sh)) i0)"
  define s2 where "s2 = AList.update ''index'' (JObj i2) s0"
  define b2 where "b2 = AList.update ''settings'' (JObj s2) body"
  have b_eq: "b = JObj b2" by (simp add: b b2_def s2_def i2_def)
  have m1: "map_of b2 ''settings'' = Some (JObj s2)" by (simp add: b2_def update_conv')
  have m2: "map_of s2 ''index'' = Some (JObj i2)" by (simp add: s2_def update_conv')
  have m3: "map_of i2 ''number_of_shards'' = Some (JStr (str_int sh))"
    by (simp add: i2_def update_conv')
  have m4: "map_of i2 ''number_of_replicas'' = Some (JStr (str_int rp))"
    by (simp add: i2_def update_conv')
  have u3: "AList.update ''number_of_shards'' (JStr (str_int sh)) i2 = i2"
    by (rule update_triv [OF m3])
  have u4: "AList.update ''number_of_replicas'' (JStr (str_int rp)) i2 = i2"
    by (rule update_triv [OF m4])
  have u2: "AList.update ''index'' (JObj i2) s2 = s2" by (rule update_triv [OF m2])
  have u1: "AList.update ''settings'' (JObj s2) b2 = b2" by (rule update_triv [OF m1])
  from assms(2) show ?thesis
    unfolding modify_settings_def b_eq
    by (simp add: key_in_iff m1 m2 u1 u2 u3 u4)
qed



lemma update_template_commands:
  assumes "update_template w n sh rp c = (r, c', t)"
  shows "(commands t = [curl ''GET'' (''_template/'' @ n) JNull] \<and> (\<forall>v. r = Inr v \<longrightarrow> \<not> truthy v)) \<or>
         (\<exists>cur c1 b. subprocess_run w c (curl ''GET'' (''_template/'' @ n) JNull) = (Json cur, c1) \<and>
            absent n cur = Inr False \<and> modify_settings cur n sh rp = Inr b \<and>
            commands t = [curl ''GET'' (''_template/'' @ n) JNull, curl ''PUT'' (''_template/'' @ n) b])"
proof -
  obtain rep c1 where run: "subprocess_run w c (curl ''GET'' (''_template/'' @ n) JNull) = (rep, c1)"
    by (cases "subprocess_run w c (curl ''GET'' (''_template/'' @ n) JNull)")
  show ?thesis
  proof (cases rep)
    case NonZeroExit
    with run assms show ?thesis
      by (auto simp: update_template_def pbind_opensearch_command)
  next
    case (NotJson out)
    with run assms show ?thesis
      by (auto simp: update_template_def pbind_opensearch_command absent_def ret_def)
  next
    case (Json cur)
    show ?thesis
    proof (cases "absent n cur")
      case (Inl e)
      with Json run assms show ?thesis
        by (auto simp: update_template_def pbind_opensearch_command)
    next
      case (Inr missing)
      show ?thesis
      proof (cases missing)
        case True
        with Inr Json run assms show ?thesis
          by (auto simp: update_template_def pbind_opensearch_command ret_def)
      next
        case False
        show ?thesis
        proof (cases "modify_settings cur n sh rp")
          case (Inl e)
          with False Inr Json run assms show ?thesis
            by (auto simp: update_template_def pbind_opensearch_command)
        next
          case b: (Inr b)
          obtain rep2 c2 where run2: "subprocess_run w c1 (curl ''PUT'' (''_template/'' @ n) b) = (rep2, c2)"
            by (cases "subprocess_run w c1 (curl ''PUT'' (''_template/'' @ n) b)")
          have "commands t = [curl ''GET'' (''_template/'' @ n) JNull, curl ''PUT'' (''_template/'' @ n) b]"
            using b False Inr Json run run2 assms
            by (cases rep2)
               (auto simp: update_template_def pbind_opensearch_command ret_def split: sum.splits)
          with b False Inr Json run show ?thesis by simp
        qed
      qed
    qed
  qed
qed

lemma curl_method [simp]: "curl meth endpoint d ! 3 = Arg meth"
  by (simp add: curl_def)



text \<open>
  The stored template has an \<open>order\<close>, patterns, mappings and a third index setting;
  all of them are in the body of the PUT.
\<close>

lemma update_stored:
  "update_template scripted ''sharding_test_template'' 1 1
     (Json (JObj [(''sharding_test_template'', stored)]) # ack # rest)
   = (Inr (JBool True), rest,
      [Print ''Updating template sharding_test_template to 1 shard(s) and 1 replica(s)...'',
       Exec (curl ''GET'' ''_template/sharding_test_template'' JNull),
       Exec (curl ''PUT'' ''_template/sharding_test_template'' patched),
       Print ''Successfully updated template sharding_test_template''])"
  by (simp add: update_template_def pbind_opensearch_command scripted_def absent_def
        modify_settings_def acknowledged_def stored_def patched_def ack_def ret_def)


section \<open>Updating twice\<close>

lemma update_template_put_commands:
  assumes "subprocess_run w c (curl ''GET'' (''_template/'' @ n) JNull) = (Json cur, c1)"
    and "absent n cur = Inr False"
    and "modify_settings cur n sh rp = Inr b"
  shows "commands (snd (snd (update_template w n sh rp c)))
         = [curl ''GET'' (''_template/'' @ n) JNull, curl ''PUT'' (''_template/'' @ n) b]"
proof -
  obtain rep2 c2 where run2: "subprocess_run w c1 (curl ''PUT'' (''_template/'' @ n) b) = (rep2, c2)"
    by (cases "subprocess_run w c1 (curl ''PUT'' (''_template/'' @ n) b)")
  with assms show ?thesis
    by (cases rep2)
       (auto simp: update_template_def pbind_opensearch_command ret_def split: sum.splits)
qed

text \<open>
  C7. Suppose a first application of \<open>update_template\<close> succeeded, and the cluster now
  returns under the template name the body that this application has PUT. Then a second
  application with the same counts PUTs this very body again: what is stored for the
  template does not change.
\<close>

theorem update_template_idempotent:
  assumes first: "update_template w n sh rp c = (Inr ok, c1, t1)" and ok: "truthy ok"
    and refetch: "subprocess_run w c1 (curl ''GET'' (''_template/'' @ n) JNull) = (Json cur2, c2)"
    and same: "\<forall>b. curl ''PUT'' (''_template/'' @ n) b \<in> set (commands t1) \<longrightarrow> getitem cur2 n = Inr b"
  shows "\<exists>b. commands t1 = [curl ''GET'' (''_template/'' @ n) JNull, curl ''PUT'' (''_template/'' @ n) b] \<and>
             commands (snd (snd (update_template w n sh rp c1)))
               = [curl ''GET'' (''_template/'' @ n) JNull, curl ''PUT'' (''_template/'' @ n) b]"
proof -
  from update_template_commands [OF first] ok obtain cur b where
    ms: "modify_settings cur n sh rp = Inr b" and
    t1: "commands t1 = [curl ''GET'' (''_template/'' @ n) JNull, curl ''PUT'' (''_template/'' @ n) b]"
    by auto
  from same t1 have g2: "getitem cur2 n = Inr b" by simp
  then have a2: "absent n cur2 = Inr False"
    by (auto simp: getitem_Inr_iff absent_obj)
  from modify_settings_again [OF ms g2] have ms2: "modify_settings cur2 n sh rp = Inr b" .
  from update_template_put_commands [OF refetch a2 ms2] t1 show ?thesis by blast
qed

text \<open>
  The scripted cluster returns the stored template, acknowledges the PUT, then returns
  the updated template and acknowledges again.
\<close>

theorem update_template_idempotent_witness:
  "commands (snd (snd (update_template scripted ''sharding_test_template'' 1 1
                         [Json (JObj [(''sharding_test_template'', patched)]), ack])))
   = [curl ''GET'' ''_template/sharding_test_template'' JNull,
      curl ''PUT'' ''_template/sharding_test_template'' patched]"
proof -
  let ?c1 = "[Json (JObj [(''sharding_test_template'', patched)]), ack]"
  let ?c = "Json (JObj [(''sharding_test_template'', stored)]) # ack # ?c1"
  let ?t1 = "[Print ''Updating template sharding_test_template to 1 shard(s) and 1 replica(s)...'',
       Exec (curl ''GET'' ''_template/sharding_test_template'' JNull),
       Exec (curl ''PUT'' ''_template/sharding_test_template'' patched),
       Print ''Successfully updated template sharding_test_template'']"
  have first: "update_template scripted ''sharding_test_template'' 1 1 ?c = (Inr (JBool True), ?c1, ?t1)"
    by (rule update_stored)
  have ok: "truthy (JBool True)" by simp
  have refetch: "subprocess_run scripted ?c1 (curl ''GET'' (''_template/'' @ ''sharding_test_template'') JNull)
                 = (Json (JObj [(''sharding_test_template'', patched)]), [ack])"
    by (simp add: scripted_def)
  have same: "\<forall>b. curl ''PUT'' (''_template/'' @ ''sharding_test_template'') b \<in> set (commands ?t1)
                \<longrightarrow> getitem (JObj [(''sharding_test_template'', patched)]) ''sharding_test_template'' = Inr b"
    by (auto simp: curl_def patched_def split: if_splits)
  from update_template_idempotent [OF first ok refetch same] show ?thesis
    by (auto simp: curl_def patched_def split: if_splits)
qed

section \<open>Verifying the index settings\<close>

lemma parse_int_minus_one: "parse_int ''-1'' = Some (- 1)"
  by (simp add: parse_int_def strip_def is_space_def digit_val_def)

lemma verify_index_settings_result:
  assumes "subprocess_run w c (curl ''GET'' (index_name @ ''/_settings'') JNull) = (rep, c')"
  shows "fst (verify_index_settings w index_name es er c) =
           (case rep of
              NonZeroExit \<Rightarrow> Inl CalledProcessError
            | NotJson out \<Rightarrow> Inr False
            | Json response \<Rightarrow>
                (case absent index_name response of
                   Inl e \<Rightarrow> Inl e
                 | Inr True \<Rightarrow> Inr False
                 | Inr False \<Rightarrow>
                     (case actual_counts response index_name of
                        Inl e \<Rightarrow> Inl e
                      | Inr (a, b) \<Rightarrow> Inr (a = es \<and> b = er))))"
  using assms
  by (auto simp: verify_index_settings_def pbind_opensearch_command absent_def ret_def
           split: reply.splits sum.splits bool.splits prod.splits)

lemma actual_counts_obj:
  "actual_counts response index_name = Inr p \<Longrightarrow> \<exists>kvs. response = JObj kvs \<and> map_of kvs index_name \<noteq> None"
  by (auto simp: actual_counts_def ebind_Inr_iff getitem_Inr_iff)

text \<open>
  \<^verbatim>\<open>int(str(i))\<close> is \<open>i\<close>: the decimal numeral of an integer is read back as that integer.
\<close>

lemma digit_chars:
  assumes "c \<in> set ''0123456789''"
  shows "\<not> is_space c" and "c \<noteq> CHR ''-''" and "c \<noteq> CHR ''+''" and "digit_val c \<noteq> None"
  using assms by (auto simp: is_space_def digit_val_def)

lemma digit_val_nth:
  assumes "n < 10"
  shows "digit_val (''0123456789'' ! n) = Some n"
proof -
  have "list_all (\<lambda>k. digit_val (''0123456789'' ! k) = Some k) [0..<10]"
    by (simp add: upt_conv_Cons digit_val_def)
  with assms show ?thesis by (simp add: list_all_iff)
qed

lemma parse_digits_snoc:
  "parse_digits acc prev ds = Some m \<Longrightarrow> digit_val d = Some v \<Longrightarrow>
   parse_digits acc prev (ds @ [d]) = Some (10 * m + v)"
proof (induction ds arbitrary: acc prev)
  case Nil
  then show ?case by (simp split: if_splits)
next
  case (Cons c cs)
  then show ?case by (cases "digit_val c") (auto split: if_splits)
qed

lemma parse_digits_str_nat: "parse_digits 0 False (str_nat n) = Some n"
proof (induction n rule: str_nat.induct)
  case (1 n)
  show ?case
  proof (cases "n < 10")
    case True
    then show ?thesis by (subst str_nat.simps) (simp add: digit_val_nth)
  next
    case False
    with 1 have ih: "parse_digits 0 False (str_nat (n div 10)) = Some (n div 10)" by simp
    have "digit_val (''0123456789'' ! (n mod 10)) = Some (n mod 10)" by (simp add: digit_val_nth)
    from parse_digits_snoc [OF ih this] False show ?thesis
      by (subst str_nat.simps) simp
  qed
qed

lemma str_nat_ends:
  "str_nat n \<noteq> [] \<and> hd (str_nat n) \<in> set ''0123456789'' \<and> last (str_nat n) \<in> set ''0123456789''"
proof (induction n rule: str_nat.induct)
  case (1 n)
  show ?case
  proof (cases "n < 10")
    case True
    then have "''0123456789'' ! n \<in> set ''0123456789''" by (intro nth_mem) simp
    with True show ?thesis by (subst (1 2 3) str_nat.simps) simp
  next
    case False
    have "''0123456789'' ! (n mod 10) \<in> set ''0123456789''" by (intro nth_mem) simp
    with 1 False show ?thesis by (subst (1 2 3) str_nat.simps) simp
  qed
qed

lemma strip_id:
  assumes "s \<noteq> []" and "\<not> is_space (hd s)" and "\<not> is_space (last s)"
  shows "strip s = s"
proof -
  from assms(1,2) have 1: "dropWhile is_space s = s" by (cases s) simp_all
  from assms(1,3) have 2: "dropWhile is_space (rev s) = rev s"
    by (cases "rev s") (simp_all add: hd_rev [symmetric])
  show ?thesis by (simp add: strip_def 1 2)
qed

lemma parse_int_str_nat: "parse_int (str_nat n) = Some (int n)"
proof -
  from str_nat_ends [of n] obtain d ds where ds: "str_nat n = d # ds"
    and d: "d \<in> set ''0123456789''" and l: "last (d # ds) \<in> set ''0123456789''"
    by (cases "str_nat n") auto
  have "strip (d # ds) = d # ds"
    using d l by (intro strip_id) (simp_all add: digit_chars(1))
  moreover have "parse_digits 0 False (d # ds) = Some n"
    using parse_digits_str_nat [of n] by (simp only: ds)
  ultimately show ?thesis
    unfolding parse_int_def ds using digit_chars(2,3) [OF d] by simp
qed

lemma parse_int_minus_str_nat: "parse_int (CHR ''-'' # str_nat n) = Some (- int n)"
proof -
  from str_nat_ends [of n] have ne: "str_nat n \<noteq> []" and l: "last (str_nat n) \<in> set ''0123456789''"
    by simp_all
  have "strip (CHR ''-'' # str_nat n) = CHR ''-'' # str_nat n"
    using ne l by (intro strip_id) (simp_all add: digit_chars(1), simp add: is_space_def)
  then show ?thesis
    by (simp add: parse_int_def parse_digits_str_nat)
qed

lemma parse_int_str_int: "parse_int (str_int i) = Some i"
  by (simp add: str_int_def parse_int_str_nat parse_int_minus_str_nat)

lemma int_of_str_int: "int_of (JStr (str_int i)) = Inr i"
  by (simp add: parse_int_str_int)

lemma get_Inr_iff:
  "get x k d = Inr v \<longleftrightarrow>
     (\<exists>kvs. x = JObj kvs \<and> (case map_of kvs k of None \<Rightarrow> d | Some u \<Rightarrow> u) = v)"
  by (cases x) auto

lemma actual_counts_iff:
  "actual_counts (JObj kvs) index_name = Inr (a, b) \<longleftrightarrow>
     (\<exists>ekvs skvs fields.
        map_of kvs index_name = Some (JObj ekvs) \<and>
        (case map_of ekvs ''settings'' of None \<Rightarrow> JObj [] | Some v \<Rightarrow> v) = JObj skvs \<and>
        (case map_of skvs ''index'' of None \<Rightarrow> JObj [] | Some v \<Rightarrow> v) = JObj fields \<and>
        int_of (case map_of fields ''number_of_shards'' of None \<Rightarrow> JStr ''-1'' | Some v \<Rightarrow> v) = Inr a \<and>
        int_of (case map_of fields ''number_of_replicas'' of None \<Rightarrow> JStr ''-1'' | Some v \<Rightarrow> v) = Inr b)"
  unfolding actual_counts_def ebind_Inr_iff getitem_Inr_iff get_Inr_iff
  by (rule iffI; clarsimp)

text \<open>
  C2, as the code has it. Let \<open>rep\<close> be the reply to the GET of the index settings.
  \<open>verify_index_settings\<close> returns \<^verbatim>\<open>True\<close> exactly when \<open>rep\<close> is a JSON object that
  holds the index, the \<open>settings\<close> of the index and the \<open>index\<close> of these settings are
  objects (an absent one counts as the empty object), and \<^verbatim>\<open>int\<close> of the
  \<open>number_of_shards\<close> and of the \<open>number_of_replicas\<close> field gives the expected
  integers, a missing field being read as the string \<open>-1\<close>. When the two fields
  hold the decimal numerals of \<open>a\<close> and \<open>b\<close>, the result is \<^verbatim>\<open>True\<close> if \<open>a\<close> and \<open>b\<close> are
  the expected counts and \<^verbatim>\<open>False\<close> otherwise. With a missing field the result is
  never \<^verbatim>\<open>True\<close> when the expected count of that field is not \<open>-1\<close>.
\<close>

theorem verify_index_settings_iff:
  assumes "subprocess_run w c (curl ''GET'' (index_name @ ''/_settings'') JNull) = (rep, c')"
  shows "(fst (verify_index_settings w index_name es er c) = Inr True \<longleftrightarrow>
            (\<exists>kvs ekvs skvs fields.
               rep = Json (JObj kvs) \<and> map_of kvs index_name = Some (JObj ekvs) \<and>
            (case map_of ekvs ''settings'' of None \<Rightarrow> JObj [] | Some v \<Rightarrow> v) = JObj skvs \<and>
            (case map_of skvs ''index'' of None \<Rightarrow> JObj [] | Some v \<Rightarrow> v) = JObj fields \<and>
               int_of (case map_of fields ''number_of_shards'' of None \<Rightarrow> JStr ''-1'' | Some v \<Rightarrow> v) = Inr es \<and>
               int_of (case map_of fields ''number_of_replicas'' of None \<Rightarrow> JStr ''-1'' | Some v \<Rightarrow> v) = Inr er)) \<and>
         (\<forall>kvs ekvs skvs fields a b.
            rep = Json (JObj kvs) \<and> map_of kvs index_name = Some (JObj ekvs) \<and>
            (case map_of ekvs ''settings'' of None \<Rightarrow> JObj [] | Some v \<Rightarrow> v) = JObj skvs \<and>
            (case map_of skvs ''index'' of None \<Rightarrow> JObj [] | Some v \<Rightarrow> v) = JObj fields \<and>
            map_of fields ''number_of_shards'' = Some (JStr (str_int a)) \<and>
            map_of fields ''number_of_replicas'' = Some (JStr (str_int b)) \<longrightarrow>
              fst (verify_index_settings w index_name es er c) = Inr (a = es \<and> b = er)) \<and>
         (\<forall>kvs ekvs skvs fields.
            rep = Json (JObj kvs) \<and> map_of kvs index_name = Some (JObj ekvs) \<and>
            (case map_of ekvs ''settings'' of None \<Rightarrow> JObj [] | Some v \<Rightarrow> v) = JObj skvs \<and>
            (case map_of skvs ''index'' of None \<Rightarrow> JObj [] | Some v \<Rightarrow> v) = JObj fields \<and>
            (map_of fields ''number_of_shards'' = None \<and> es \<noteq> - 1 \<or>
             map_of fields ''number_of_replicas'' = None \<and> er \<noteq> - 1) \<longrightarrow>
              fst (verify_index_settings w index_name es er c) \<noteq> Inr True)"
proof -
  note r = verify_index_settings_result [OF assms, of es er]
  have res: "fst (verify_index_settings w index_name es er c) = Inr (a = es \<and> b = er)"
    if "rep = Json (JObj kvs)" "actual_counts (JObj kvs) index_name = Inr (a, b)" for kvs a b
  proof -
    from actual_counts_obj [OF that(2)] have "absent index_name (JObj kvs) = Inr False"
      by (auto simp: absent_obj)
    with r that show ?thesis by simp
  qed
  have iff: "fst (verify_index_settings w index_name es er c) = Inr True \<longleftrightarrow>
            (\<exists>kvs. rep = Json (JObj kvs) \<and> actual_counts (JObj kvs) index_name = Inr (es, er))"
  proof
    assume t: "fst (verify_index_settings w index_name es er c) = Inr True"
    with r obtain response where rep: "rep = Json response"
      and ac: "actual_counts response index_name = Inr (es, er)"
      by (auto split: reply.splits sum.splits bool.splits prod.splits)
    from actual_counts_obj [OF ac] rep ac
    show "\<exists>kvs. rep = Json (JObj kvs) \<and> actual_counts (JObj kvs) index_name = Inr (es, er)"
      by auto
  next
    assume "\<exists>kvs. rep = Json (JObj kvs) \<and> actual_counts (JObj kvs) index_name = Inr (es, er)"
    then obtain kvs where "rep = Json (JObj kvs)" "actual_counts (JObj kvs) index_name = Inr (es, er)"
      by blast
    from res [OF this] show "fst (verify_index_settings w index_name es er c) = Inr True"
      by simp
  qed
  show ?thesis
  proof (intro conjI allI impI)
    show "fst (verify_index_settings w index_name es er c) = Inr True \<longleftrightarrow>
            (\<exists>kvs ekvs skvs fields.
               rep = Json (JObj kvs) \<and> map_of kvs index_name = Some (JObj ekvs) \<and>
            (case map_of ekvs ''settings'' of None \<Rightarrow> JObj [] | Some v \<Rightarrow> v) = JObj skvs \<and>
            (case map_of skvs ''index'' of None \<Rightarrow> JObj [] | Some v \<Rightarrow> v) = JObj fields \<and>
               int_of (case map_of fields ''number_of_shards'' of None \<Rightarrow> JStr ''-1'' | Some v \<Rightarrow> v) = Inr es \<and>
               int_of (case map_of fields ''number_of_replicas'' of None \<Rightarrow> JStr ''-1'' | Some v \<Rightarrow> v) = Inr er)"
      unfolding iff actual_counts_iff by blast
  next
    fix kvs ekvs skvs fields a b
    assume h: "rep = Json (JObj kvs) \<and> map_of kvs index_name = Some (JObj ekvs) \<and>
            (case map_of ekvs ''settings'' of None \<Rightarrow> JObj [] | Some v \<Rightarrow> v) = JObj skvs \<and>
            (case map_of skvs ''index'' of None \<Rightarrow> JObj [] | Some v \<Rightarrow> v) = JObj fields \<and>
            map_of fields ''number_of_shards'' = Some (JStr (str_int a)) \<and>
            map_of fields ''number_of_replicas'' = Some (JStr (str_int b))"
    then have "actual_counts (JObj kvs) index_name = Inr (a, b)"
      unfolding actual_counts_iff
      by (intro exI [of _ ekvs] exI [of _ skvs] exI [of _ fields]) (simp add: parse_int_str_int)
    with h show "fst (verify_index_settings w index_name es er c) = Inr (a = es \<and> b = er)"
      by (intro res [of kvs]) simp_all
  next
    fix kvs ekvs skvs fields
    assume h: "rep = Json (JObj kvs) \<and> map_of kvs index_name = Some (JObj ekvs) \<and>
            (case map_of ekvs ''settings'' of None \<Rightarrow> JObj [] | Some v \<Rightarrow> v) = JObj skvs \<and>
            (case map_of skvs ''index'' of None \<Rightarrow> JObj [] | Some v \<Rightarrow> v) = JObj fields \<and>
            (map_of fields ''number_of_shards'' = None \<and> es \<noteq> - 1 \<or>
             map_of fields ''number_of_replicas'' = None \<and> er \<noteq> - 1)"
    show "fst (verify_index_settings w index_name es er c) \<noteq> Inr True"
    proof
      assume "fst (verify_index_settings w index_name es er c) = Inr True"
      with iff h have "actual_counts (JObj kvs) index_name = Inr (es, er)" by auto
      with h show False
        unfolding actual_counts_iff by (auto simp: parse_int_minus_one)
    qed
  qed
qed

text \<open>
  An index with one shard and one replica is accepted against (1, 1), an index with five
  shards and two replicas is not, and neither is an index with one shard and no
  \<open>number_of_replicas\<close> field.
\<close>

theorem verify_index_settings_iff_witness:
  "fst (verify_index_settings scripted ''sharding_test_template_test'' 1 1 [settings_reply ''1'' ''1''])
     = Inr True \<and>
   fst (verify_index_settings scripted ''sharding_test_template_test'' 1 1 [settings_reply ''5'' ''2''])
     \<noteq> Inr True \<and>
   fst (verify_index_settings scripted ''audit-_test'' 1 1
          [Json (JObj [(''audit-_test'',
             JObj [(''settings'', JObj [(''index'', JObj [(''number_of_shards'', JStr ''1'')])])])])])
     \<noteq> Inr True"
proof -
  let ?i = "''sharding_test_template_test''"
  have run1: "subprocess_run scripted [settings_reply ''1'' ''1''] (curl ''GET'' (?i @ ''/_settings'') JNull)
              = (settings_reply ''1'' ''1'', [])"
    by (simp add: scripted_def)
  have run2: "subprocess_run scripted [settings_reply ''5'' ''2''] (curl ''GET'' (?i @ ''/_settings'') JNull)
              = (settings_reply ''5'' ''2'', [])"
    by (simp add: scripted_def)
  let ?fields = "[(''number_of_shards'', JStr ''1'')]"
  let ?st = "[(''index'', JObj ?fields)]"
  let ?entry = "[(''settings'', JObj ?st)]"
  let ?kvs = "[(''audit-_test'', JObj ?entry)]"
  have run3: "subprocess_run scripted [Json (JObj ?kvs)] (curl ''GET'' (''audit-_test'' @ ''/_settings'') JNull)
             = (Json (JObj ?kvs), [])"
    by (simp add: scripted_def)
  have five: "str_int 5 = ''5''" and two: "str_int 2 = ''2''"
    by (simp_all add: str_int_def str_nat.simps)
  note read1 = verify_index_settings_iff [OF run1, of 1 1, THEN conjunct2, THEN conjunct1, rule_format,
      of "[(?i, JObj [(''settings'', JObj [(''index'', JObj [(''number_of_shards'', JStr ''1''),
                                                   (''number_of_replicas'', JStr ''1'')])])])]"
         "[(''settings'', JObj [(''index'', JObj [(''number_of_shards'', JStr ''1''),
                                                   (''number_of_replicas'', JStr ''1'')])])]"
         "[(''index'', JObj [(''number_of_shards'', JStr ''1''), (''number_of_replicas'', JStr ''1'')])]"
         "[(''number_of_shards'', JStr ''1''), (''number_of_replicas'', JStr ''1'')]" 1 1]
  note read2 = verify_index_settings_iff [OF run2, of 1 1, THEN conjunct2, THEN conjunct1, rule_format,
      of "[(?i, JObj [(''settings'', JObj [(''index'', JObj [(''number_of_shards'', JStr ''5''),
                                                   (''number_of_replicas'', JStr ''2'')])])])]"
         "[(''settings'', JObj [(''index'', JObj [(''number_of_shards'', JStr ''5''),
                                                   (''number_of_replicas'', JStr ''2'')])])]"
         "[(''index'', JObj [(''number_of_shards'', JStr ''5''), (''number_of_replicas'', JStr ''2'')])]"
         "[(''number_of_shards'', JStr ''5''), (''number_of_replicas'', JStr ''2'')]" 5 2]
  note missing = verify_index_settings_iff [OF run3, of 1 1, THEN conjunct2, THEN conjunct2,
                   rule_format, of ?kvs ?entry ?st ?fields]
  have 1: "fst (verify_index_settings scripted ?i 1 1 [settings_reply ''1'' ''1'']) = Inr True"
    using read1 by (simp add: settings_reply_def)
  have 2: "fst (verify_index_settings scripted ?i 1 1 [settings_reply ''5'' ''2'']) \<noteq> Inr True"
    using read2 by (simp add: settings_reply_def five two)
  have 3: "fst (verify_index_settings scripted ''audit-_test'' 1 1 [Json (JObj ?kvs)]) \<noteq> Inr True"
    by (rule missing) simp
  from 1 2 3 show ?thesis by simp
qed

text \<open>
  When \<open>-1\<close> itself is expected, an index with neither field is reported as having
  the correct settings.
\<close>

theorem verify_index_settings_sentinel_counterexample:
  "fst (verify_index_settings scripted ''audit-_test'' (- 1) (- 1)
          [Json (JObj [(''audit-_test'', JObj [(''settings'', JObj [(''index'', JObj [])])])])])
   = Inr True"
  by (simp add: verify_index_settings_def pbind_opensearch_command scripted_def absent_def
        actual_counts_def parse_int_minus_one ret_def)

section \<open>The probe of an updated template\<close>

lemma pbind_now [simp]: "pbind (now w) f c = f (time_time w c) c"
  by (simp add: pbind_def now_def split: prod.splits)

lemma pbind_sleep [simp]:
  "pbind (sleep w n) f c = (case f () (time_sleep w n c) of (r, c', t) \<Rightarrow> (r, c', Sleep n # t))"
  by (simp add: pbind_def sleep_def)

lemma doc_truthy [simp]: "truthy (doc ts)"
  by (simp add: doc_def)

lemma created_falsy: "\<not> truthy j \<Longrightarrow> created j = Inr j"
  by (simp add: created_def)

lemma created_obj:
  "kvs \<noteq> [] \<Longrightarrow> created (JObj kvs) =
     Inr (JBool (map_of kvs ''result'' = Some (JStr ''created'') \<or> map_of kvs ''result'' = Some (JStr ''updated'')))"
  by (auto simp: created_def key_in_iff)

lemma create_test_document_run:
  assumes "subprocess_run w c (curl ''POST'' (i @ ''/_doc'') (doc (time_time w c))) = (rep, c')"
  shows "create_test_document w i c =
           (case rep of
              NonZeroExit \<Rightarrow>
                (Inl CalledProcessError, c',
                 [Print (''Creating test document in index '' @ i @ ''...''),
                  Exec (curl ''POST'' (i @ ''/_doc'') (doc (time_time w c)))])
            | NotJson out \<Rightarrow>
                (Inr JNull, c',
                 [Print (''Creating test document in index '' @ i @ ''...''),
                  Exec (curl ''POST'' (i @ ''/_doc'') (doc (time_time w c))),
                  Print (''Failed to parse JSON: '' @ out),
                  PrintVal (''Failed to create test document in '' @ i @ '': '') JNull])
            | Json j \<Rightarrow>
                (case created j of
                   Inl e \<Rightarrow>
                     (Inl e, c',
                      [Print (''Creating test document in index '' @ i @ ''...''),
                       Exec (curl ''POST'' (i @ ''/_doc'') (doc (time_time w c)))])
                 | Inr ok \<Rightarrow>
                     (Inr ok, c',
                      [Print (''Creating test document in index '' @ i @ ''...''),
                       Exec (curl ''POST'' (i @ ''/_doc'') (doc (time_time w c))),
                       if truthy ok then Print (''Successfully created test document in '' @ i)
                       else PrintVal (''Failed to create test document in '' @ i @ '': '') j])))"
  using assms
  by (simp add: create_test_document_def pbind_opensearch_command ret_def created_falsy
           split: reply.splits sum.splits)

lemma created_cases:
  "created (JBool True) = Inl TypeError"
  "i \<noteq> 0 \<Longrightarrow> created (JInt i) = Inl TypeError"
  "r \<noteq> 0 \<Longrightarrow> created (JFloat r) = Inl TypeError"
  "JStr ''result'' \<in> set xs \<Longrightarrow> created (JArr xs) = Inl TypeError"
  "sublist ''result'' s \<Longrightarrow> created (JStr s) = Inl TypeError"
  "JStr ''result'' \<notin> set xs \<Longrightarrow> xs \<noteq> [] \<Longrightarrow> created (JArr xs) = Inr (JBool False)"
  "\<not> sublist ''result'' s \<Longrightarrow> s \<noteq> [] \<Longrightarrow> created (JStr s) = Inr (JBool False)"
  by (auto simp: created_def)

lemma test_template_raise:
  assumes "subprocess_run w c (curl ''POST'' (t_test_index t @ ''/_doc'') (doc (time_time w c))) = (rep, c')"
    and "rep = NonZeroExit \<and> e = CalledProcessError \<or> (\<exists>j. rep = Json j \<and> created j = Inl e)"
  shows "test_template w t c =
           (Inl e, c',
            [Print (''Creating test document in index '' @ t_test_index t @ ''...''),
             Exec (curl ''POST'' (t_test_index t @ ''/_doc'') (doc (time_time w c)))])"
  using assms(2) create_test_document_run [OF assms(1)]
  by (auto simp: test_template_def pbind_def)

lemma test_template_failed:
  assumes "subprocess_run w c (curl ''POST'' (t_test_index t @ ''/_doc'') (doc (time_time w c))) = (rep, c')"
    and "(\<exists>out. rep = NotJson out) \<or> (\<exists>j ok. rep = Json j \<and> created j = Inr ok \<and> \<not> truthy ok)"
  shows "\<exists>tr. test_template w t c =
           (Inr (), c',
            [Print (''Creating test document in index '' @ t_test_index t @ ''...''),
             Exec (curl ''POST'' (t_test_index t @ ''/_doc'') (doc (time_time w c)))] @ tr @
            [Print (''Failed to test template '' @ t_name t @ [CHR 0x0A])]) \<and>
           commands tr = [] \<and>
           Print (''Verifying settings for index '' @ t_test_index t @ ''...'') \<notin> set tr \<and>
           Print (''Template '' @ t_name t @ '' was updated but verification failed'' @ [CHR 0x0A]) \<notin> set tr"
  using assms(2) create_test_document_run [OF assms(1)]
  by (auto simp: test_template_def pbind_def emit_def)

text \<open>
  C8, as the code has it. Let \<open>rep\<close> be the reply to the POST of the probe document
  for an updated template. If the creation returns a failure, that is, \<open>rep\<close> is not
  JSON, decodes to a false value, is an object whose \<open>result\<close> field is neither
  \<open>created\<close> nor \<open>updated\<close>, or is a list or string without \<open>result\<close> in it, then the
  probe of this template ends normally after the POST alone: the settings are not
  requested, the verification is not announced, and the last line printed is
  \<open>Failed to test template\<close> with the template name, not the line of a failed
  verification. If the creation raises, that is, \<^verbatim>\<open>curl\<close> exits with a non-zero status
  (\<^verbatim>\<open>CalledProcessError\<close>) or \<open>rep\<close> is \<^verbatim>\<open>true\<close>, a number other than zero, or a list or
  string with \<open>result\<close> in it (\<^verbatim>\<open>TypeError\<close>), then the probe raises after the POST
  alone: the settings are not requested either, and the line \<open>Failed to test template\<close>
  is not printed.
\<close>

theorem failed_probe_skips_verification:
  assumes "subprocess_run w c (curl ''POST'' (t_test_index t @ ''/_doc'') (doc (time_time w c))) = (rep, c')"
  shows "((\<exists>out. rep = NotJson out) \<or> (\<exists>j. rep = Json j \<and> \<not> truthy j) \<or>
          (\<exists>kvs. rep = Json (JObj kvs) \<and> map_of kvs ''result'' \<noteq> Some (JStr ''created'') \<and>
                 map_of kvs ''result'' \<noteq> Some (JStr ''updated'')) \<or>
          (\<exists>xs. rep = Json (JArr xs) \<and> JStr ''result'' \<notin> set xs) \<or>
          (\<exists>s. rep = Json (JStr s) \<and> \<not> sublist ''result'' s) \<longrightarrow>
            fst (test_template w t c) = Inr () \<and>
            commands (snd (snd (test_template w t c)))
              = [curl ''POST'' (t_test_index t @ ''/_doc'') (doc (time_time w c))] \<and>
            last (snd (snd (test_template w t c)))
              = Print (''Failed to test template '' @ t_name t @ [CHR 0x0A]) \<and>
            Print (''Verifying settings for index '' @ t_test_index t @ ''...'')
              \<notin> set (snd (snd (test_template w t c))) \<and>
            Print (''Template '' @ t_name t @ '' was updated but verification failed'' @ [CHR 0x0A])
              \<notin> set (snd (snd (test_template w t c)))) \<and>
         (rep = NonZeroExit \<or> rep = Json (JBool True) \<or> (\<exists>i. rep = Json (JInt i) \<and> i \<noteq> 0) \<or>
          (\<exists>r. rep = Json (JFloat r) \<and> r \<noteq> 0) \<or>
          (\<exists>xs. rep = Json (JArr xs) \<and> JStr ''result'' \<in> set xs) \<or>
          (\<exists>s. rep = Json (JStr s) \<and> sublist ''result'' s) \<longrightarrow>
            fst (test_template w t c)
              = Inl (if rep = NonZeroExit then CalledProcessError else TypeError) \<and>
            commands (snd (snd (test_template w t c)))
              = [curl ''POST'' (t_test_index t @ ''/_doc'') (doc (time_time w c))] \<and>
            Print (''Verifying settings for index '' @ t_test_index t @ ''...'')
              \<notin> set (snd (snd (test_template w t c))) \<and>
            Print (''Failed to test template '' @ t_name t @ [CHR 0x0A])
              \<notin> set (snd (snd (test_template w t c))))"
proof (intro conjI impI)
  assume "(\<exists>out. rep = NotJson out) \<or> (\<exists>j. rep = Json j \<and> \<not> truthy j) \<or>
          (\<exists>kvs. rep = Json (JObj kvs) \<and> map_of kvs ''result'' \<noteq> Some (JStr ''created'') \<and>
                 map_of kvs ''result'' \<noteq> Some (JStr ''updated'')) \<or>
          (\<exists>xs. rep = Json (JArr xs) \<and> JStr ''result'' \<notin> set xs) \<or>
          (\<exists>s. rep = Json (JStr s) \<and> \<not> sublist ''result'' s)"
  then consider
    (notjson) out where "rep = NotJson out" |
    (falsy) j where "rep = Json j" "\<not> truthy j" |
    (obj) kvs where "rep = Json (JObj kvs)" "kvs \<noteq> []"
       "map_of kvs ''result'' \<noteq> Some (JStr ''created'')" "map_of kvs ''result'' \<noteq> Some (JStr ''updated'')" |
    (arr) xs where "rep = Json (JArr xs)" "xs \<noteq> []" "JStr ''result'' \<notin> set xs" |
    (str) s where "rep = Json (JStr s)" "s \<noteq> []" "\<not> sublist ''result'' s"
    by (metis truthy.simps(5,6,7))
  then have "(\<exists>out. rep = NotJson out) \<or> (\<exists>j ok. rep = Json j \<and> created j = Inr ok \<and> \<not> truthy ok)"
  proof cases
    case notjson
    then show ?thesis by simp
  next
    case falsy
    then show ?thesis by (simp add: created_falsy)
  next
    case obj
    then show ?thesis by (simp add: created_obj)
  next
    case arr
    then show ?thesis by (simp add: created_cases)
  next
    case str
    then show ?thesis by (simp add: created_cases)
  qed
  from test_template_failed [OF assms this] obtain tr where
    tt: "test_template w t c =
           (Inr (), c',
            [Print (''Creating test document in index '' @ t_test_index t @ ''...''),
             Exec (curl ''POST'' (t_test_index t @ ''/_doc'') (doc (time_time w c)))] @ tr @
            [Print (''Failed to test template '' @ t_name t @ [CHR 0x0A])])"
    and tr: "commands tr = []"
      "Print (''Verifying settings for index '' @ t_test_index t @ ''...'') \<notin> set tr"
      "Print (''Template '' @ t_name t @ '' was updated but verification failed'' @ [CHR 0x0A]) \<notin> set tr"
    by blast
  show "fst (test_template w t c) = Inr ()" by (simp add: tt)
  show "commands (snd (snd (test_template w t c)))
          = [curl ''POST'' (t_test_index t @ ''/_doc'') (doc (time_time w c))]"
    using tr by (simp add: tt)
  show "last (snd (snd (test_template w t c)))
          = Print (''Failed to test template '' @ t_name t @ [CHR 0x0A])"
    by (simp add: tt)
  show "Print (''Verifying settings for index '' @ t_test_index t @ ''...'')
          \<notin> set (snd (snd (test_template w t c)))"
    using tr by (simp add: tt)
  show "Print (''Template '' @ t_name t @ '' was updated but verification failed'' @ [CHR 0x0A])
          \<notin> set (snd (snd (test_template w t c)))"
    using tr by (simp add: tt)
next
  assume "rep = NonZeroExit \<or> rep = Json (JBool True) \<or> (\<exists>i. rep = Json (JInt i) \<and> i \<noteq> 0) \<or>
          (\<exists>r. rep = Json (JFloat r) \<and> r \<noteq> 0) \<or>
          (\<exists>xs. rep = Json (JArr xs) \<and> JStr ''result'' \<in> set xs) \<or>
          (\<exists>s. rep = Json (JStr s) \<and> sublist ''result'' s)"
  then have "rep = NonZeroExit \<and> (if rep = NonZeroExit then CalledProcessError else TypeError) = CalledProcessError \<or>
             (\<exists>j. rep = Json j \<and> created j = Inl (if rep = NonZeroExit then CalledProcessError else TypeError))"
    by (auto simp: created_cases)
  note tt = test_template_raise [OF assms this]
  show "fst (test_template w t c) = Inl (if rep = NonZeroExit then CalledProcessError else TypeError)"
    by (simp add: tt)
  show "commands (snd (snd (test_template w t c)))
          = [curl ''POST'' (t_test_index t @ ''/_doc'') (doc (time_time w c))]"
    by (simp add: tt)
  show "Print (''Verifying settings for index '' @ t_test_index t @ ''...'')
          \<notin> set (snd (snd (test_template w t c)))"
    by (simp add: tt)
  show "Print (''Failed to test template '' @ t_name t @ [CHR 0x0A])
          \<notin> set (snd (snd (test_template w t c)))"
    by (simp add: tt)
qed

text \<open>The cluster answers the POST with an error object.\<close>

theorem failed_probe_skips_verification_witness:
  "fst (test_template scripted stored_detail [Json (JObj [(''error'', JStr ''index_closed_exception'')])])
     = Inr () \<and>
   commands (snd (snd (test_template scripted stored_detail
                         [Json (JObj [(''error'', JStr ''index_closed_exception'')])])))
     = [curl ''POST'' ''sharding_test_template_test/_doc'' (doc 1700000000)] \<and>
   last (snd (snd (test_template scripted stored_detail
                         [Json (JObj [(''error'', JStr ''index_closed_exception'')])])))
     = Print (''Failed to test template sharding_test_template'' @ [CHR 0x0A])"
proof -
  let ?rep = "Json (JObj [(''error'', JStr ''index_closed_exception'')])"
  have run: "subprocess_run scripted [?rep]
               (curl ''POST'' (t_test_index stored_detail @ ''/_doc'') (doc (time_time scripted [?rep])))
             = (?rep, [])"
    by (simp add: scripted_def)
  have failed: "(\<exists>out. ?rep = NotJson out) \<or> (\<exists>j. ?rep = Json j \<and> \<not> truthy j) \<or>
         (\<exists>kvs. ?rep = Json (JObj kvs) \<and> map_of kvs ''result'' \<noteq> Some (JStr ''created'') \<and>
                 map_of kvs ''result'' \<noteq> Some (JStr ''updated'')) \<or>
         (\<exists>xs. ?rep = Json (JArr xs) \<and> JStr ''result'' \<notin> set xs) \<or>
         (\<exists>s. ?rep = Json (JStr s) \<and> \<not> sublist ''result'' s)"
    by simp
  from failed_probe_skips_verification [OF run, THEN conjunct1, rule_format, OF failed]
  show ?thesis
    by (simp add: stored_detail_def scripted_def)
qed

text \<open>
  A run in which the template is updated and the POST of the probe document meets a
  transport failure (the scripted cluster has no reply left): the probe creation has
  failed, the handler of \<open>main\<close> ends the run, and the template is not reported with
  \<open>Failed to test template\<close>.
\<close>

theorem probe_transport_failure_counterexample:
  "fst (main scripted [Json (JObj [(''sharding_test_template'', stored), (''other'', stored)]),
                  Json (JObj [(''sharding_test_template'', stored)]), ack]) = Inr (Some 1) \<and>
   curl ''POST'' ''sharding_test_template_test/_doc'' (doc 1700000000)
     \<in> set (commands (snd (snd (main scripted [Json (JObj [(''sharding_test_template'', stored), (''other'', stored)]),
                  Json (JObj [(''sharding_test_template'', stored)]), ack])))) \<and>
   Print (''Failed to test template sharding_test_template'' @ [CHR 0x0A])
     \<notin> set (snd (snd (main scripted [Json (JObj [(''sharding_test_template'', stored), (''other'', stored)]),
                  Json (JObj [(''sharding_test_template'', stored)]), ack])))"
  by (simp add: run_defs)

section \<open>Counting deletions and probes\<close>

lemma deletions_append [simp]: "deletions i (t @ u) = deletions i t + deletions i u"
  by (simp add: deletions_def)

lemma probes_created_append [simp]: "probes_created i (t @ u) = probes_created i t + probes_created i u"
  by (simp add: probes_created_def)

lemma curl_inject: "curl m e d = curl m' e' d' \<longleftrightarrow> m = m' \<and> e = e' \<and> (truthy d \<and> truthy d' \<and> d = d' \<or> \<not> truthy d \<and> \<not> truthy d')"
  by (auto simp: curl_def)

lemma deletions_Cons:
  "deletions i (e # t) = (if e = Exec (curl ''DELETE'' i JNull) then 1 else 0) + deletions i t"
  by (simp add: deletions_def)

lemma probes_created_Cons:
  "probes_created i (e # t)
     = (if e = Print (''Successfully created test document in '' @ i) then 1 else 0) + probes_created i t"
  by (simp add: probes_created_def)

lemma deletions_Nil [simp]: "deletions i [] = 0"
  by (simp add: deletions_def)

lemma probes_created_Nil [simp]: "probes_created i [] = 0"
  by (simp add: probes_created_def)

lemma quiet_ret [simp]: "quiet i (ret a)"
  by (simp add: quiet_def ret_def)

lemma quiet_lift [simp]: "quiet i (lift r)"
  by (simp add: quiet_def lift_def)

lemma quiet_emit:
  "e \<noteq> Exec (curl ''DELETE'' i JNull) \<Longrightarrow> e \<noteq> Print (''Successfully created test document in '' @ i)
   \<Longrightarrow> quiet i (emit e)"
  by (simp add: quiet_def emit_def deletions_Cons probes_created_Cons)

lemma quiet_pbind:
  assumes "quiet i m" and "\<And>a. quiet i (f a)"
  shows "quiet i (pbind m f)"
  unfolding quiet_def
proof
  fix c
  obtain r c1 t1 where m: "m c = (r, c1, t1)" by (cases "m c")
  from assms(1) m have q1: "deletions i t1 = 0" "probes_created i t1 = 0"
    by (auto simp: quiet_def dest: spec [of _ c])
  show "deletions i (snd (snd (pbind m f c))) = 0 \<and> probes_created i (snd (snd (pbind m f c))) = 0"
  proof (cases r)
    case (Inl e)
    with m q1 show ?thesis by (simp add: pbind_def)
  next
    case (Inr a)
    obtain r2 c2 t2 where f: "f a c1 = (r2, c2, t2)" by (cases "f a c1")
    from assms(2) [of a] f have "deletions i t2 = 0" "probes_created i t2 = 0"
      by (auto simp: quiet_def dest: spec [of _ c1])
    with Inr m q1 f show ?thesis by (simp add: pbind_def)
  qed
qed

lemma quiet_cleans_up: "quiet i m \<Longrightarrow> cleans_up i m"
  by (simp add: quiet_def cleans_up_def)

lemma cleans_up_pbind:
  assumes "cleans_up i m" and "\<And>a. cleans_up i (f a)"
  shows "cleans_up i (pbind m f)"
  unfolding cleans_up_def
proof
  fix c
  obtain r c1 t1 where m: "m c = (r, c1, t1)" by (cases "m c")
  from assms(1) m have q1: "deletions i t1 \<le> probes_created i t1"
    "isl r \<or> deletions i t1 = probes_created i t1"
    by (auto simp: cleans_up_def dest: spec [of _ c])
  show "deletions i (snd (snd (pbind m f c))) \<le> probes_created i (snd (snd (pbind m f c))) \<and>
        (isl (fst (pbind m f c)) \<or>
         deletions i (snd (snd (pbind m f c))) = probes_created i (snd (snd (pbind m f c))))"
  proof (cases r)
    case (Inl e)
    with m q1 show ?thesis by (simp add: pbind_def)
  next
    case (Inr a)
    obtain r2 c2 t2 where f: "f a c1 = (r2, c2, t2)" by (cases "f a c1")
    from assms(2) [of a] f have "deletions i t2 \<le> probes_created i t2"
      "isl r2 \<or> deletions i t2 = probes_created i t2"
      by (auto simp: cleans_up_def dest: spec [of _ c1])
    with Inr m q1 f show ?thesis by (auto simp: pbind_def)
  qed
qed

lemma quiet_opensearch_command:
  "meth \<noteq> ''DELETE'' \<Longrightarrow> quiet i (opensearch_command w meth endpoint d)"
  by (auto simp: quiet_def opensearch_command_def run_command_def deletions_Cons probes_created_Cons
        curl_inject split: prod.splits reply.splits)

lemma quiet_now [simp]: "quiet i (now w)"
  by (simp add: quiet_def now_def)

lemma quiet_sleep [simp]: "quiet i (sleep w n)"
  by (simp add: quiet_def sleep_def deletions_Cons probes_created_Cons)

lemma quiet_read_input [simp]: "quiet i (read_input w p)"
  by (simp add: quiet_def read_input_def deletions_Cons probes_created_Cons split: prod.splits option.splits)

lemma quiet_if: "quiet i m \<Longrightarrow> quiet i m' \<Longrightarrow> quiet i (if b then m else m')"
  by simp

lemma quiet_case_prod: "(\<And>a b. quiet i (f a b)) \<Longrightarrow> quiet i (case p of (a, b) \<Rightarrow> f a b)"
  by (cases p) simp

lemmas quiet_intros =
  quiet_pbind quiet_emit quiet_opensearch_command quiet_if quiet_lift quiet_ret quiet_case_prod
  quiet_now quiet_sleep quiet_read_input

lemma quiet_verify_index_settings: "quiet i (verify_index_settings w j es er)"
  unfolding verify_index_settings_def
  by (intro quiet_intros) simp_all

lemma quiet_update_template: "quiet i (update_template w n sh rp)"
  unfolding update_template_def
  by (intro quiet_intros) simp_all

lemma quiet_get_templates: "quiet i (get_templates w)"
  unfolding get_templates_def
  by (intro quiet_intros) simp_all

lemma quiet_get_template_details: "quiet i (get_template_details ts)"
proof (induction ts)
  case Nil
  show ?case by simp
next
  case (Cons p ts)
  obtain n d where p: "p = (n, d)" by (cases p)
  show ?case
  proof (cases "template_detail n d")
    case (Inl e)
    with Cons show ?thesis
      unfolding p get_template_details.simps by (simp only: sum.case) (intro quiet_intros, simp_all)
  next
    case (Inr x)
    with Cons show ?thesis
      unfolding p get_template_details.simps by (simp only: sum.case) (intro quiet_intros, simp_all)
  qed
qed

lemma str_nat_digit: "\<exists>d ds. str_nat n = d # ds \<and> d \<in> set ''0123456789''"
proof (induction n rule: str_nat.induct)
  case (1 n)
  show ?case
  proof (cases "n < 10")
    case True
    then have "''0123456789'' ! n \<in> set ''0123456789''" by (intro nth_mem) simp
    with True show ?thesis by (subst str_nat.simps) simp
  next
    case False
    with 1 obtain d ds where "str_nat (n div 10) = d # ds" "d \<in> set ''0123456789''" by blast
    with False show ?thesis by (subst str_nat.simps) simp
  qed
qed

lemma str_nat_not_report:
  "Print (str_nat n @ s) \<noteq> Print (''Successfully created test document in '' @ i)"
  using str_nat_digit [of n] by auto

lemma quiet_display_templates: "quiet i (display_templates idx ds)"
proof (induction ds arbitrary: idx)
  case Nil
  show ?case by simp
next
  case (Cons d ds)
  show ?case
    unfolding display_templates.simps
    by (intro quiet_intros Cons str_nat_not_report) simp_all
qed

lemma quiet_update_loop: "quiet i (update_loop w ds)"
proof (induction ds)
  case Nil
  show ?case by simp
next
  case (Cons d ds)
  show ?case
    unfolding update_loop.simps
    by (intro quiet_intros Cons quiet_update_template)
qed

lemma quiet_print_failed: "quiet i (print_failed ds)"
proof (induction ds)
  case Nil
  show ?case by simp
next
  case (Cons d ds)
  show ?case
    unfolding print_failed.simps
    by (intro quiet_intros Cons) simp_all
qed

lemma settles_quiet_pbind:
  assumes "quiet i m" and "\<And>a. settles i d (f a)"
  shows "settles i d (pbind m f)"
  unfolding settles_def
proof
  fix c
  obtain r c1 t1 where m: "m c = (r, c1, t1)" by (cases "m c")
  from assms(1) m have q1: "deletions i t1 = 0" "probes_created i t1 = 0"
    by (auto simp: quiet_def dest: spec [of _ c])
  show "deletions i (snd (snd (pbind m f c))) \<le> probes_created i (snd (snd (pbind m f c))) + d \<and>
        (isl (fst (pbind m f c)) \<or>
         deletions i (snd (snd (pbind m f c))) = probes_created i (snd (snd (pbind m f c))) + d)"
  proof (cases r)
    case (Inl e)
    with m q1 show ?thesis by (simp add: pbind_def)
  next
    case (Inr a)
    obtain r2 c2 t2 where f: "f a c1 = (r2, c2, t2)" by (cases "f a c1")
    from assms(2) [of a] f have "deletions i t2 \<le> probes_created i t2 + d"
      "isl r2 \<or> deletions i t2 = probes_created i t2 + d"
      by (auto simp: settles_def dest: spec [of _ c1])
    with Inr m q1 f show ?thesis by (auto simp: pbind_def)
  qed
qed

lemma settles_pbind_quiet:
  assumes "settles i d m" and "\<And>a. quiet i (f a)"
  shows "settles i d (pbind m f)"
  unfolding settles_def
proof
  fix c
  obtain r c1 t1 where m: "m c = (r, c1, t1)" by (cases "m c")
  from assms(1) m have q1: "deletions i t1 \<le> probes_created i t1 + d"
    "isl r \<or> deletions i t1 = probes_created i t1 + d"
    by (auto simp: settles_def dest: spec [of _ c])
  show "deletions i (snd (snd (pbind m f c))) \<le> probes_created i (snd (snd (pbind m f c))) + d \<and>
        (isl (fst (pbind m f c)) \<or>
         deletions i (snd (snd (pbind m f c))) = probes_created i (snd (snd (pbind m f c))) + d)"
  proof (cases r)
    case (Inl e)
    with m q1 show ?thesis by (simp add: pbind_def)
  next
    case (Inr a)
    obtain r2 c2 t2 where f: "f a c1 = (r2, c2, t2)" by (cases "f a c1")
    from assms(2) [of a] f have "deletions i t2 = 0" "probes_created i t2 = 0"
      by (auto simp: quiet_def dest: spec [of _ c1])
    with Inr m q1 f show ?thesis by (auto simp: pbind_def)
  qed
qed

lemma settles_delete_index: "settles i (if i = j then 1 else 0) (delete_index w j)"
  by (auto simp: settles_def delete_index_def pbind_opensearch_command deletions_Cons
        probes_created_Cons curl_inject ret_def
        split: prod.splits reply.splits sum.splits)

lemma settles_rest:
  "settles i (if i = j then 1 else 0)
     (pbind (sleep w 2) (\<lambda>_.
      pbind (verify_index_settings w j 1 1) (\<lambda>verified.
      pbind (delete_index w j) (\<lambda>_.
      emit (Print (if verified
                   then ''Template '' @ n @ '' was successfully updated and verified'' @ [CHR 0x0A]
                   else ''Template '' @ n @ '' was updated but verification failed'' @ [CHR 0x0A]))))))"
  by (intro settles_quiet_pbind quiet_sleep quiet_verify_index_settings settles_pbind_quiet
        settles_delete_index quiet_emit) simp_all

lemma cleans_up_test_template: "cleans_up i (test_template w t)"
  unfolding cleans_up_def
proof
  fix c
  let ?j = "t_test_index t"
  obtain rep c1 where run: "subprocess_run w c (curl ''POST'' (?j @ ''/_doc'') (doc (time_time w c))) = (rep, c1)"
    by (cases "subprocess_run w c (curl ''POST'' (?j @ ''/_doc'') (doc (time_time w c)))")
  note cr = create_test_document_run [OF run]
  let ?rest = "pbind (sleep w 2) (\<lambda>_.
      pbind (verify_index_settings w ?j 1 1) (\<lambda>verified.
      pbind (delete_index w ?j) (\<lambda>_.
      emit (Print (if verified
                   then ''Template '' @ t_name t @ '' was successfully updated and verified'' @ [CHR 0x0A]
                   else ''Template '' @ t_name t @ '' was updated but verification failed'' @ [CHR 0x0A])))))"
  obtain r2 c2 t2 where rest: "?rest c1 = (r2, c2, t2)" by (cases "?rest c1")
  from settles_rest [of i ?j w "t_name t"] rest
  have s: "deletions i t2 \<le> probes_created i t2 + (if i = ?j then 1 else 0)"
    "isl r2 \<or> deletions i t2 = probes_created i t2 + (if i = ?j then 1 else 0)"
    by (auto simp: settles_def dest: spec [of _ c1])
  have unfold: "test_template w t c =
      (case create_test_document w ?j c of
         (Inl e, c', tr) \<Rightarrow> (Inl e, c', tr)
       | (Inr ok, c', tr) \<Rightarrow>
           (case (if truthy ok then ?rest
                  else emit (Print (''Failed to test template '' @ t_name t @ [CHR 0x0A]))) c' of
              (r, c'', tr') \<Rightarrow> (r, c'', tr @ tr')))"
    by (simp only: test_template_def pbind_def)
  show "deletions i (snd (snd (test_template w t c))) \<le> probes_created i (snd (snd (test_template w t c))) \<and>
        (isl (fst (test_template w t c)) \<or>
         deletions i (snd (snd (test_template w t c))) = probes_created i (snd (snd (test_template w t c))))"
  proof (cases rep)
    case NonZeroExit
    with cr show ?thesis
      unfolding unfold by (simp add: deletions_Cons probes_created_Cons curl_inject)
  next
    case (NotJson out)
    with cr show ?thesis
      unfolding unfold by (simp add: deletions_Cons probes_created_Cons curl_inject emit_def)
  next
    case (Json j)
    show ?thesis
    proof (cases "created j")
      case (Inl e)
      with Json cr show ?thesis
        unfolding unfold by (simp add: deletions_Cons probes_created_Cons curl_inject)
    next
      case (Inr ok)
      show ?thesis
      proof (cases "truthy ok")
        case True
        with Inr Json cr rest s show ?thesis
          unfolding unfold by (auto simp: deletions_Cons probes_created_Cons curl_inject)
      next
        case False
        with Inr Json cr show ?thesis
          unfolding unfold by (simp add: deletions_Cons probes_created_Cons curl_inject emit_def)
      qed
    qed
  qed
qed

lemma cleans_up_test_loop: "cleans_up i (test_loop w ds)"
proof (induction ds)
  case Nil
  show ?case by (simp add: quiet_cleans_up)
next
  case (Cons d ds)
  show ?case
    unfolding test_loop.simps
    by (intro cleans_up_pbind cleans_up_test_template Cons)
qed

lemma cleans_up_if: "cleans_up i m \<Longrightarrow> cleans_up i m' \<Longrightarrow> cleans_up i (if b then m else m')"
  by simp

lemma cleans_up_case_prod:
  "(\<And>a b. cleans_up i (f a b)) \<Longrightarrow> cleans_up i (case p of (a, b) \<Rightarrow> f a b)"
  by (cases p) simp

lemmas cleans_up_intros =
  cleans_up_pbind cleans_up_if cleans_up_case_prod cleans_up_test_loop
  quiet_cleans_up [OF quiet_get_templates]
  quiet_cleans_up [OF quiet_emit]
  quiet_cleans_up [OF quiet_ret]
  quiet_cleans_up [OF quiet_lift]
  quiet_cleans_up [OF quiet_get_template_details]
  quiet_cleans_up [OF quiet_display_templates]
  quiet_cleans_up [OF quiet_read_input]
  quiet_cleans_up [OF quiet_update_loop]
  quiet_cleans_up [OF quiet_print_failed]

lemma cleans_up_main_try: "cleans_up i (main_try w)"
  unfolding main_try_def main_templates_def
  by (intro cleans_up_intros) simp_all

text \<open>
  C3, as the code has it. In every run and for every index, the deletion of the index
  is never requested more often than a probe document was created in it; and in every
  run that is not ended by the exception handler (\<open>main\<close> does not return 1) it is
  requested exactly as often: once for each probe created, whatever the verification
  returned, and not at all for a probe that could not be created.
\<close>

theorem cleanup_matches_probes:
  "deletions i (snd (snd (main w c))) \<le> probes_created i (snd (snd (main w c))) \<and>
   (fst (main w c) \<noteq> Inr (Some 1) \<longrightarrow>
      deletions i (snd (snd (main w c))) = probes_created i (snd (snd (main w c))))"
proof -
  obtain r c1 t1 where run: "main_try w c = (r, c1, t1)" by (cases "main_try w c")
  from cleans_up_main_try [of i w] run
  have cu: "deletions i t1 \<le> probes_created i t1" "isl r \<or> deletions i t1 = probes_created i t1"
    by (auto simp: cleans_up_def dest: spec [of _ c])
  show ?thesis
  proof (cases r)
    case (Inl e)
    with run cu show ?thesis
      by (simp add: main_def try_except_def ret_def deletions_Cons probes_created_Cons)
  next
    case (Inr a)
    with run cu show ?thesis
      by (simp add: main_def try_except_def ret_def deletions_Cons probes_created_Cons)
  qed
qed

text \<open>
  A run in which the probe is created and the verification fails (the index has five
  shards and two replicas): the index is deleted once.
\<close>

theorem cleanup_matches_probes_witness:
  "fst (main scripted [Json (JObj [(''sharding_test_template'', stored), (''other'', stored)]),
                  Json (JObj [(''sharding_test_template'', stored)]), ack,
                  Json (JObj [(''result'', JStr ''created'')]),
                  settings_reply ''5'' ''2'', ack]) = Inr (Some 0) \<and>
   deletions ''sharding_test_template_test'' (snd (snd (main scripted [Json (JObj [(''sharding_test_template'', stored), (''other'', stored)]),
                  Json (JObj [(''sharding_test_template'', stored)]), ack,
                  Json (JObj [(''result'', JStr ''created'')]),
                  settings_reply ''5'' ''2'', ack]))) = 1"
proof -
  let ?R = "[Json (JObj [(''sharding_test_template'', stored), (''other'', stored)]),
                  Json (JObj [(''sharding_test_template'', stored)]), ack,
                  Json (JObj [(''result'', JStr ''created'')]),
                  settings_reply ''5'' ''2'', ack]"
  have ok: "fst (main scripted ?R) = Inr (Some 0)"
    by (simp add: run_defs)
  have probes: "probes_created ''sharding_test_template_test'' (snd (snd (main scripted ?R))) = 1"
    by (simp add: run_defs probes_created_Cons)
  from cleanup_matches_probes [of "''sharding_test_template_test''" scripted ?R] ok probes
  show ?thesis by simp
qed

text \<open>
  A run in which the probe is created and the request of the settings meets a transport
  failure (the scripted cluster has no reply left): the verification raises, the handler
  ends the run, and the index is not deleted.
\<close>

theorem cleanup_skipped_counterexample:
  "fst (main scripted [Json (JObj [(''sharding_test_template'', stored), (''other'', stored)]),
                  Json (JObj [(''sharding_test_template'', stored)]), ack,
                  Json (JObj [(''result'', JStr ''created'')])]) = Inr (Some 1) \<and>
   probes_created ''sharding_test_template_test'' (snd (snd (main scripted [Json (JObj [(''sharding_test_template'', stored), (''other'', stored)]),
                  Json (JObj [(''sharding_test_template'', stored)]), ack,
                  Json (JObj [(''result'', JStr ''created'')])]))) = 1 \<and>
   deletions ''sharding_test_template_test'' (snd (snd (main scripted [Json (JObj [(''sharding_test_template'', stored), (''other'', stored)]),
                  Json (JObj [(''sharding_test_template'', stored)]), ack,
                  Json (JObj [(''result'', JStr ''created'')])]))) = 0"
  by (simp add: run_defs probes_created_Cons deletions_Cons curl_def)


section \<open>The commands of a run\<close>

lemma addresses_curl [simp]: "addresses meth endpoint (curl meth' endpoint' d) \<longleftrightarrow> meth = meth' \<and> endpoint = endpoint'"
  by (auto simp: addresses_def curl_def)






































section \<open>The templates acted upon\<close>




end
